theory Spec2Isabelle
  imports Complex_Main "HOL-Library.Sublist"
begin

section \<open>Strings as the route handler uses them\<close>

text \<open>
  A JavaScript string is modelled as a \<open>string\<close> whose characters are the code units
  below 256 (the Latin-1 range). Numbers are modelled as exact rationals: the rounding of
  IEEE doubles is not part of the model.
\<close>

definition code :: "char \<Rightarrow> nat" where
  "code c = of_char c"

definition isDigit :: "char \<Rightarrow> bool" where
  \<comment> \<open>the class \<open>\d\<close>\<close>
  "isDigit c = (48 \<le> code c \<and> code c \<le> 57)"

definition isWordChar :: "char \<Rightarrow> bool" where
  \<comment> \<open>the class \<open>\w\<close>: letters, digits and the underscore\<close>
  "isWordChar c =
     ((48 \<le> code c \<and> code c \<le> 57) \<or> (65 \<le> code c \<and> code c \<le> 90)
      \<or> (97 \<le> code c \<and> code c \<le> 122) \<or> code c = 95)"

definition isSpace :: "char \<Rightarrow> bool" where
  \<comment> \<open>the class \<open>\s\<close> and what \<open>trim\<close> strips: tab, LF, VT, FF, CR, space, NBSP\<close>
  "isSpace c = ((9 \<le> code c \<and> code c \<le> 13) \<or> code c = 32 \<or> code c = 160)"

fun plus32 :: "char \<Rightarrow> char" where
  \<comment> \<open>adds 32 to a code unit whose bit 5 is clear, as every capital's is\<close>
  "plus32 (Char b0 b1 b2 b3 b4 b5 b6 b7) = Char b0 b1 b2 b3 b4 True b6 b7"

definition asciiLower :: "char \<Rightarrow> char" where
  \<comment> \<open>case folding of the \<open>i\<close> flag against an ASCII pattern letter\<close>
  "asciiLower c = (if 65 \<le> code c \<and> code c \<le> 90 then plus32 c else c)"

definition lowerChar :: "char \<Rightarrow> char" where
  \<comment> \<open>\<open>toLowerCase\<close> on one code unit below 256: A-Z and the Latin-1 capitals\<close>
  "lowerChar c =
     (if (65 \<le> code c \<and> code c \<le> 90) \<or> (192 \<le> code c \<and> code c \<le> 222 \<and> code c \<noteq> 215)
      then plus32 c else c)"

definition toLowerCase :: "string \<Rightarrow> string" where
  "toLowerCase s = map lowerChar s"

definition trim :: "string \<Rightarrow> string" where
  "trim s = rev (dropWhile isSpace (rev (dropWhile isSpace s)))"

definition LF :: char where
  "LF = CHR 0x0A"

definition CR :: char where
  "CR = CHR 0x0D"

fun consHead :: "char \<Rightarrow> string list \<Rightarrow> string list" where
  "consHead c [] = [[c]]"
| "consHead c (w # ws) = (c # w) # ws"

fun splitOn :: "char \<Rightarrow> string \<Rightarrow> string list" where
  \<comment> \<open>\<open>s.split(d)\<close> for a one-character separator; the empty string gives one empty field\<close>
  "splitOn d [] = [[]]"
| "splitOn d (c # cs) = (if c = d then [] # splitOn d cs else consHead c (splitOn d cs))"

fun splitLines :: "string \<Rightarrow> string list" where
  \<comment> \<open>\<open>s.split(/\r?\n/)\<close>\<close>
  "splitLines [] = [[]]"
| "splitLines [c] = (if c = LF then [[], []] else [[c]])"
| "splitLines (c # d # cs) =
     (if c = LF then [] # splitLines (d # cs)
      else if c = CR \<and> d = LF then [] # splitLines cs
      else consHead c (splitLines (d # cs)))"

fun eatCI :: "string \<Rightarrow> string \<Rightarrow> string option" where
  \<comment> \<open>match a lower-case literal at the start of the input, ignoring ASCII case;
      the result is the input after the match\<close>
  "eatCI [] s = Some s"
| "eatCI (p # ps) [] = None"
| "eatCI (p # ps) (c # cs) = (if asciiLower c = p then eatCI ps cs else None)"

fun findIndex :: "('a \<Rightarrow> bool) \<Rightarrow> 'a list \<Rightarrow> nat option" where
  \<comment> \<open>\<open>Array.prototype.findIndex\<close>; \<open>None\<close> stands for -1\<close>
  "findIndex P [] = None"
| "findIndex P (x # xs) = (if P x then Some 0 else map_option Suc (findIndex P xs))"

fun nth_opt :: "'a list \<Rightarrow> nat \<Rightarrow> 'a option" where
  \<comment> \<open>\<open>xs[i]\<close>; \<open>None\<close> stands for \<open>undefined\<close>\<close>
  "nth_opt [] i = None"
| "nth_opt (x # xs) 0 = Some x"
| "nth_opt (x # xs) (Suc i) = nth_opt xs i"

fun uniq :: "'a list \<Rightarrow> 'a list" where
  \<comment> \<open>\<open>Array.from(new Set(xs))\<close>: first occurrences, in order\<close>
  "uniq [] = []"
| "uniq (x # xs) = x # filter (\<lambda>y. y \<noteq> x) (uniq xs)"


fun anySuffix :: "(string \<Rightarrow> bool) \<Rightarrow> string \<Rightarrow> bool" where
  \<comment> \<open>\<open>re.test(s)\<close>: the pattern matches at some position of the input\<close>
  "anySuffix P [] = P []"
| "anySuffix P (c # cs) = (P (c # cs) \<or> anySuffix P cs)"

definition containsCI :: "string \<Rightarrow> string \<Rightarrow> bool" where
  \<comment> \<open>\<open>/lit/i.test(s)\<close> for a lower-case literal\<close>
  "containsCI p s = anySuffix (\<lambda>t. eatCI p t \<noteq> None) s"

definition hasComma :: "string \<Rightarrow> bool" where
  \<comment> \<open>\<open>s.includes(',')\<close>\<close>
  "hasComma s = (CHR '','' \<in> set s)"

definition eatNetIncome :: "string \<Rightarrow> string option" where
  \<comment> \<open>\<open>net\s*income\<close> at the start of the input; the star is greedy and what follows
      it is not a space, so there is one way to match\<close>
  "eatNetIncome s =
     (case eatCI ''net'' s of None \<Rightarrow> None | Some r \<Rightarrow> eatCI ''income'' (dropWhile isSpace r))"

fun firstSome :: "'a option list \<Rightarrow> 'a option" where
  "firstSome [] = None"
| "firstSome (None # xs) = firstSome xs"
| "firstSome (Some x # xs) = Some x"

definition eatMetric :: "string \<Rightarrow> string option" where
  \<comment> \<open>\<open>revenue|net\s*income|assets|liabilities|equity|ebitda\<close> at the start of the input\<close>
  "eatMetric s =
     firstSome [eatCI ''revenue'' s, eatNetIncome s, eatCI ''assets'' s,
                eatCI ''liabilities'' s, eatCI ''equity'' s, eatCI ''ebitda'' s]"

definition testMetric :: "string \<Rightarrow> bool" where
  \<comment> \<open>\<open>/revenue|net\s*income|assets|liabilities|equity|ebitda/i.test(s)\<close>\<close>
  "testMetric s = anySuffix (\<lambda>t. eatMetric t \<noteq> None) s"

fun yearAt :: "string \<Rightarrow> bool" where
  \<comment> \<open>\<open>(19|20)\d{2}\<close> at the start of the input\<close>
  "yearAt (a # b # c # d # rest) =
     (((a = CHR ''1'' \<and> b = CHR ''9'') \<or> (a = CHR ''2'' \<and> b = CHR ''0''))
      \<and> isDigit c \<and> isDigit d)"
| "yearAt s = False"

fun matchYear :: "string \<Rightarrow> string option" where
  \<comment> \<open>the first match of \<open>/(19|20)\d{2}/\<close>, which is also that of \<open>/(20\d{2}|19\d{2})/\<close>\<close>
  "matchYear [] = None"
| "matchYear (c # cs) = (if yearAt (c # cs) then Some (take 4 (c # cs)) else matchYear cs)"

definition digitVal :: "char \<Rightarrow> nat" where
  "digitVal c = code c - 48"

definition natOfDigits :: "string \<Rightarrow> nat" where
  "natOfDigits ds = foldl (\<lambda>n c. 10 * n + digitVal c) 0 ds"

definition stripNumeric :: "string \<Rightarrow> string" where
  \<comment> \<open>\<open>s.replace(/[^0-9.\-]/g, '')\<close>\<close>
  "stripNumeric s = filter (\<lambda>c. isDigit c \<or> c = CHR ''.'' \<or> c = CHR ''-'') s"

definition parseFloat :: "string \<Rightarrow> rat option" where
  \<comment> \<open>\<open>parseFloat\<close> on a string over digits, dot and minus, which is all it is given:
      an optional minus, digits, an optional dot and digits, at least one digit in all;
      \<open>None\<close> is NaN\<close>
  "parseFloat s =
     (let neg = (s \<noteq> [] \<and> hd s = CHR ''-'');
          r = (if neg then tl s else s);
          ip = takeWhile isDigit r;
          r1 = dropWhile isDigit r;
          fp = (if r1 \<noteq> [] \<and> hd r1 = CHR ''.'' then takeWhile isDigit (tl r1) else []);
          v = of_nat (natOfDigits ip) + of_nat (natOfDigits fp) / 10 ^ length fp
      in if ip = [] \<and> fp = [] then None else Some (if neg then - v else v))"

definition parseCell :: "string option \<Rightarrow> rat option" where
  \<comment> \<open>\<open>parseFloat(raw?.trim()?.replace(/[^0-9.\-]/g, '') || '')\<close> for a cell that may be
      \<open>undefined\<close>\<close>
  "parseCell raw = (case raw of None \<Rightarrow> parseFloat [] | Some r \<Rightarrow> parseFloat (stripNumeric (trim r)))"

fun joinWith :: "string \<Rightarrow> string list \<Rightarrow> string" where
  \<comment> \<open>\<open>xs.join(sep)\<close>\<close>
  "joinWith sep [] = []"
| "joinWith sep [x] = x"
| "joinWith sep (x # y # ys) = x @ sep @ joinWith sep (y # ys)"

text \<open>
  A \<open>Record<string, number>\<close> whose keys are years. JavaScript enumerates integer-like
  keys in ascending numeric order, so the association list is kept in that order.
\<close>

type_synonym year_record = "(string \<times> rat) list"

fun recordSet :: "string \<Rightarrow> rat \<Rightarrow> year_record \<Rightarrow> year_record" where
  \<comment> \<open>\<open>rec[k] = v\<close>\<close>
  "recordSet k v [] = [(k, v)]"
| "recordSet k v ((k', v') # m) =
     (if k' = k then (k, v) # m
      else if natOfDigits k < natOfDigits k' then (k, v) # (k', v') # m
      else (k', v') # recordSet k v m)"

definition recordGet0 :: "year_record \<Rightarrow> string \<Rightarrow> rat" where
  \<comment> \<open>\<open>rec[k] || 0\<close>\<close>
  "recordGet0 m k = (case map_of m k of None \<Rightarrow> 0 | Some v \<Rightarrow> v)"

definition recordAdd :: "string \<Rightarrow> rat \<Rightarrow> year_record \<Rightarrow> year_record" where
  \<comment> \<open>\<open>rec[k] = (rec[k] || 0) + v\<close>\<close>
  "recordAdd k v m = recordSet k (recordGet0 m k + v) m"

section \<open>Documents, hits and collaborators\<close>

datatype doc_type = Pdf | Txt | Csv | Json | Md | Docx | Xlsx

fun typeName :: "doc_type \<Rightarrow> string" where
  "typeName Pdf = ''pdf''"
| "typeName Txt = ''txt''"
| "typeName Csv = ''csv''"
| "typeName Json = ''json''"
| "typeName Md = ''md''"
| "typeName Docx = ''docx''"
| "typeName Xlsx = ''xlsx''"

record doc_metadata =
  fileName :: string
  fileSize :: nat
  mimeType :: string
  uploadDate :: string
  tags :: "string list option"
  category :: "string option"
  author :: "string option"
  department :: "string option"
  project :: "string option"
  version :: "string option"
  language :: "string option"
  summary :: "string option"

text \<open>
  \<open>ElasticsearchCompanyDocument\<close>. The fields \<open>id\<close>, \<open>_id\<close> and \<open>_score\<close> are optional
  in what the index returns, so they are options here; \<open>_highlights\<close> is never read.
\<close>

record es_doc =
  doc_id :: "string option"
  title :: string
  content :: string
  doc_text :: string
  dtype :: doc_type
  metadata :: doc_metadata
  embedding :: "rat list"
  createdAt :: string
  updatedAt :: string
  es_id :: "string option"
  es_score :: "rat option"

datatype js_error = Error string

datatype search_filter =
  Terms string "string list"
| Range string string string

type_synonym es_filters = "search_filter list option"

record chat_message =
  msg_id :: string
  msg_content :: string
  isUser :: bool
  msg_timestamp :: string

text \<open>
  The prompt sent to the model is a fixed template around these parts: the financial
  block, the number of results, the rendering of the first five documents, the rendering
  of the last six messages and the sanitized question. The model keeps the parts.
\<close>

record doc_context =
  dc_ordinal :: nat
  dc_title :: string
  dc_type :: string
  dc_category :: string
  dc_department :: string
  dc_content :: string

record prompt =
  p_financials :: "(string \<times> rat) list"
  p_resultCount :: nat
  p_documents :: "doc_context list"
  p_history :: "(string \<times> string) list"
  p_question :: string

text \<open>
  What the request to the model endpoint gives: the request fails, or a response comes
  with its \<open>ok\<close> flag, its status and a body. Of a body that parses as JSON the handler
  reads \<open>candidates?.[0]?.content?.parts?.[0]?.text\<close> only, which is a string or
  \<open>undefined\<close>; on the JSON value \<open>null\<close> that read throws.
\<close>

datatype model_body = NotJson | JsonNull | JsonText "string option"

datatype fetch_result = NetworkError | HttpResponse bool nat model_body

text \<open>
  The collaborators of the route handler, as functions: the embedding wrapper, which never
  throws, the two searches of the index, which return hits or throw, and the model
  endpoint with the presence of its configuration.
\<close>

record collaborators =
  c_generateEmbedding :: "string \<Rightarrow> rat list"
  c_hybridSearchDocuments :: "string \<Rightarrow> rat list \<Rightarrow> es_filters \<Rightarrow> int \<Rightarrow> js_error + es_doc list"
  c_textSearchDocuments :: "string \<Rightarrow> es_filters \<Rightarrow> int \<Rightarrow> js_error + es_doc list"
  c_geminiConfigured :: bool
  c_geminiFetch :: "prompt \<Rightarrow> fetch_result"

text \<open>Every call that leaves the handler is recorded, in order.\<close>

datatype call =
  EmbeddingCall string
| HybridSearchCall string "rat list" es_filters int
| TextSearchCall string es_filters int
| ModelCall prompt

section \<open>generateEmbedding\<close>

text \<open>
  The embedding wrapper, given whether the endpoint is configured, what the request gives
  (\<open>None\<close> when it throws, else the \<open>ok\<close> flag of the response) and the draws of
  \<open>Math.random\<close>: 768 draws scaled to the interval from -1 to 1 when the request succeeds,
  the zero vector otherwise. In the search loop the wrapper is the collaborator
  \<open>c_generateEmbedding\<close>, a function of the text.
\<close>

definition generateEmbedding :: "bool \<Rightarrow> bool option \<Rightarrow> (nat \<Rightarrow> rat) \<Rightarrow> rat list" where
  "generateEmbedding configured response random =
     (if configured \<and> response = Some True then map (\<lambda>i. random i * 2 - 1) [0..<768]
      else replicate 768 0)"

section \<open>multiSearch\<close>

definition truthy :: "string option \<Rightarrow> bool" where
  \<comment> \<open>\<open>undefined\<close> and the empty string are falsy\<close>
  "truthy v = (case v of None \<Rightarrow> False | Some s \<Rightarrow> s \<noteq> [])"

definition hitKey :: "es_doc \<Rightarrow> string" where
  \<comment> \<open>\<open>r.id || r._id || `${r.title}:${r.createdAt}`\<close>\<close>
  "hitKey r =
     (if truthy (doc_id r) then the (doc_id r)
      else if truthy (es_id r) then the (es_id r)
      else title r @ '':'' @ createdAt r)"

definition searchOne ::
  "collaborators \<Rightarrow> es_filters \<Rightarrow> bool \<Rightarrow> int \<Rightarrow> string \<Rightarrow> es_doc list option \<times> call list" where
  \<comment> \<open>the \<open>try\<close> block of one iteration: \<open>None\<close> is the \<open>catch\<close> with its \<open>continue\<close>\<close>
  "searchOne env filters useVectorSearch topKPerQuery q =
     (if useVectorSearch then
        (let embedding = c_generateEmbedding env q in
         case c_hybridSearchDocuments env q embedding filters topKPerQuery of
           Inl e \<Rightarrow>
             (None, [EmbeddingCall q, HybridSearchCall q embedding filters topKPerQuery])
         | Inr results \<Rightarrow>
             if results = [] then
               (case c_textSearchDocuments env q filters topKPerQuery of
                  Inl e \<Rightarrow>
                    (None, [EmbeddingCall q, HybridSearchCall q embedding filters topKPerQuery,
                            TextSearchCall q filters topKPerQuery])
                | Inr results' \<Rightarrow>
                    (Some results',
                     [EmbeddingCall q, HybridSearchCall q embedding filters topKPerQuery,
                      TextSearchCall q filters topKPerQuery]))
             else (Some results,
                   [EmbeddingCall q, HybridSearchCall q embedding filters topKPerQuery]))
      else
        (case c_textSearchDocuments env q filters topKPerQuery of
           Inl e \<Rightarrow> (None, [TextSearchCall q filters topKPerQuery])
         | Inr results \<Rightarrow> (Some results, [TextSearchCall q filters topKPerQuery])))"

fun mergeResults :: "es_doc list \<Rightarrow> string set \<times> es_doc list \<Rightarrow> string set \<times> es_doc list" where
  \<comment> \<open>the inner loop over one result list, on the state \<open>(seenIds, merged)\<close>\<close>
  "mergeResults [] st = st"
| "mergeResults (r # rs) (seenIds, merged) =
     (if hitKey r \<notin> seenIds
      then mergeResults rs (insert (hitKey r) seenIds, merged @ [r])
      else mergeResults rs (seenIds, merged))"

fun searchLoop ::
  "collaborators \<Rightarrow> es_filters \<Rightarrow> bool \<Rightarrow> int \<Rightarrow> string list
   \<Rightarrow> (string set \<times> es_doc list) \<times> call list \<Rightarrow> (string set \<times> es_doc list) \<times> call list" where
  \<comment> \<open>the outer loop over the queries\<close>
  "searchLoop env filters useVectorSearch topK [] st = st"
| "searchLoop env filters useVectorSearch topK (q # qs) (st, calls) =
     (case searchOne env filters useVectorSearch topK q of
        (None, cs) \<Rightarrow> searchLoop env filters useVectorSearch topK qs (st, calls @ cs)
      | (Some results, cs) \<Rightarrow>
          searchLoop env filters useVectorSearch topK qs (mergeResults results st, calls @ cs))"

definition slice0 :: "'a list \<Rightarrow> int \<Rightarrow> 'a list" where
  \<comment> \<open>\<open>xs.slice(0, n)\<close>: a negative end counts from the end of the list\<close>
  "slice0 xs n = (if n < 0 then take (nat (int (length xs) + n)) xs else take (nat n) xs)"

definition topKPerQuery :: "int \<Rightarrow> int" where
  \<comment> \<open>\<open>Math.max(3, Math.floor(maxResults / 2))\<close>\<close>
  "topKPerQuery maxResults = max 3 (maxResults div 2)"

definition multiSearchState ::
  "collaborators \<Rightarrow> string list \<Rightarrow> es_filters \<Rightarrow> bool \<Rightarrow> int
   \<Rightarrow> (string set \<times> es_doc list) \<times> call list" where
  \<comment> \<open>\<open>seenIds\<close>, \<open>merged\<close> and the calls made when the loop over the first six queries ends\<close>
  "multiSearchState env searchQueries filters useVectorSearch maxResults =
     searchLoop env filters useVectorSearch (topKPerQuery maxResults) (take 6 searchQueries)
       (({}, []), [])"

definition multiSearch ::
  "collaborators \<Rightarrow> string \<Rightarrow> string list \<Rightarrow> es_filters \<Rightarrow> bool \<Rightarrow> int
   \<Rightarrow> es_doc list \<times> call list" where
  "multiSearch env userQuery searchQueries filters useVectorSearch maxResults =
     (let (st, calls) = multiSearchState env searchQueries filters useVectorSearch maxResults
      in (slice0 (snd st) maxResults, calls))"

section \<open>sanitizeInput\<close>

fun removeLit :: "string \<Rightarrow> string \<Rightarrow> string" where
  \<comment> \<open>\<open>s.replace(/lit/gi, '')\<close> for a lower-case literal: the matches are found left to
      right and the search goes on after each match\<close>
  "removeLit p [] = []"
| "removeLit p (c # cs) =
     (if eatCI p (c # cs) \<noteq> None then removeLit p (drop (length p - 1) cs)
      else c # removeLit p cs)"

definition handlerLength :: "string \<Rightarrow> nat option" where
  \<comment> \<open>the length of a match of \<open>on\w+=\<close> at the start of the input. The plus is greedy and
      \<open>=\<close> is not a word character, so the run of word characters is the whole run.\<close>
  "handlerLength s =
     (case eatCI ''on'' s of
        None \<Rightarrow> None
      | Some r \<Rightarrow>
          (let w = takeWhile isWordChar r; r' = dropWhile isWordChar r
           in if w \<noteq> [] \<and> r' \<noteq> [] \<and> hd r' = CHR ''='' then Some (length w + 3) else None))"

fun removeHandlers :: "string \<Rightarrow> string" where
  \<comment> \<open>\<open>s.replace(/on\w+=/gi, '')\<close>\<close>
  "removeHandlers [] = []"
| "removeHandlers (c # cs) =
     (case handlerLength (c # cs) of
        Some n \<Rightarrow> removeHandlers (drop (n - 1) cs)
      | None \<Rightarrow> c # removeHandlers cs)"

definition sanitizeInput :: "string \<Rightarrow> string" where
  "sanitizeInput input =
     trim (removeHandlers (removeLit ''javascript:''
       (filter (\<lambda>c. c \<noteq> CHR ''<'' \<and> c \<noteq> CHR ''>'') input)))"

section \<open>planInformationNeeds\<close>

definition startsWithWord :: "string \<Rightarrow> bool" where
  "startsWithWord s = (s \<noteq> [] \<and> isWordChar (hd s))"

fun scanYears :: "bool \<Rightarrow> string \<Rightarrow> string list" where
  \<comment> \<open>\<open>s.match(/\b(19|20)\d{2}\b/g)\<close>, scanning from a position whose previous character
      is a word character or not. A match starts and ends at a word boundary; the four
      digits are word characters, so the characters around them must not be.\<close>
  "scanYears prevWord [] = []"
| "scanYears prevWord (c # cs) =
     (if \<not> prevWord \<and> yearAt (c # cs) \<and> \<not> startsWithWord (drop 3 cs)
      then take 4 (c # cs) # scanYears True (drop 3 cs)
      else scanYears (isWordChar c) cs)"

record query_plan =
  metrics :: "string list"
  years :: "string list"
  entities :: "string list"
  searchQueries :: "string list"

definition matchedMetrics :: "string \<Rightarrow> string list" where
  \<comment> \<open>the six tests, each pushing its metric\<close>
  "matchedMetrics userQuery =
     (if containsCI ''revenue'' userQuery \<or> containsCI ''sales'' userQuery then [''revenue''] else [])
     @ (if anySuffix (\<lambda>t. eatNetIncome t \<noteq> None) userQuery \<or> containsCI ''profit'' userQuery
        then [''net income''] else [])
     @ (if containsCI ''ebitda'' userQuery then [''ebitda''] else [])
     @ (if containsCI ''assets'' userQuery then [''assets''] else [])
     @ (if containsCI ''liabilities'' userQuery then [''liabilities''] else [])
     @ (if containsCI ''equity'' userQuery then [''equity''] else [])"

definition planInformationNeeds :: "string \<Rightarrow> query_plan" where
  "planInformationNeeds userQuery =
     (let q = toLowerCase userQuery;
          ys = uniq (scanYears False q);
          ms = (if matchedMetrics userQuery = [] then [''revenue''] else matchedMetrics userQuery);
          base = trim userQuery;
          derived =
            (if ys \<noteq> []
             then concat (map (\<lambda>m. (m @ '' '' @ joinWith '' '' ys) # map (\<lambda>y. m @ '' '' @ y) ys) ms)
             else ms)
      in \<lparr>metrics = uniq ms, years = ys, entities = [], searchQueries = uniq (base # derived)\<rparr>)"

section \<open>extractRevenueByYearFromCsvContent\<close>

definition revenueRow :: "nat option \<Rightarrow> nat \<Rightarrow> string \<Rightarrow> (string \<times> rat) option" where
  \<comment> \<open>the body of the loop over the rows up to the update of the record: the year and
      the revenue the row contributes, or \<open>None\<close> where the body hits a \<open>continue\<close>\<close>
  "revenueRow monthIdx revenueIdx row =
     (if \<not> hasComma row then None
      else
        (let cols = splitOn CHR '','' row in
         case parseCell (nth_opt cols revenueIdx) of
           None \<Rightarrow> None
         | Some revenue \<Rightarrow>
             (case monthIdx of
                None \<Rightarrow> None
              | Some mi \<Rightarrow>
                  (case matchYear (case nth_opt cols mi of None \<Rightarrow> [] | Some v \<Rightarrow> v) of
                     None \<Rightarrow> None
                   | Some y \<Rightarrow> Some (y, revenue)))))"

fun revenueLoop :: "nat option \<Rightarrow> nat \<Rightarrow> string list \<Rightarrow> year_record \<Rightarrow> year_record" where
  "revenueLoop monthIdx revenueIdx [] revenueByYear = revenueByYear"
| "revenueLoop monthIdx revenueIdx (row # rows) revenueByYear =
     (case revenueRow monthIdx revenueIdx row of
        None \<Rightarrow> revenueLoop monthIdx revenueIdx rows revenueByYear
      | Some (y, revenue) \<Rightarrow>
          revenueLoop monthIdx revenueIdx rows (recordAdd y revenue revenueByYear))"

definition extractRevenueByYearFromCsvContent :: "string \<Rightarrow> year_record" where
  "extractRevenueByYearFromCsvContent csv =
     (let lines = filter (\<lambda>l. l \<noteq> []) (splitLines csv) in
      case findIndex (\<lambda>l. hasComma l \<and> containsCI ''revenue'' l) lines of
        None \<Rightarrow> []
      | Some headerIdx \<Rightarrow>
          (let headers = map trim (splitOn CHR '','' (lines ! headerIdx));
               monthIdx = findIndex (containsCI ''month'') headers
           in case findIndex (containsCI ''revenue'') headers of
                None \<Rightarrow> []
              | Some revenueIdx \<Rightarrow>
                  revenueLoop monthIdx revenueIdx (drop (Suc headerIdx) lines) []))"

fun financialsLoop :: "es_doc list \<Rightarrow> year_record \<Rightarrow> year_record" where
  \<comment> \<open>the loop of \<open>generateAIResponse\<close> that builds \<open>financials\<close>\<close>
  "financialsLoop [] financials = financials"
| "financialsLoop (doc # docs) financials =
     (if dtype doc = Csv \<and> containsCI ''revenue'' (content doc)
      then financialsLoop docs
             (fold (\<lambda>(y, v) f. recordAdd y v f)
                (extractRevenueByYearFromCsvContent (content doc)) financials)
      else financialsLoop docs financials)"

section \<open>extractMetricYearFacts\<close>

record metric_fact =
  metric :: string
  year :: string
  amount :: rat
  fact_source :: string

fun lastIndexOf :: "'a list \<Rightarrow> 'a \<Rightarrow> nat option" where
  \<comment> \<open>the index \<open>metricIdxMap\<close> holds for a key: the last header with that name\<close>
  "lastIndexOf [] k = None"
| "lastIndexOf (x # xs) k =
     (case lastIndexOf xs k of
        Some i \<Rightarrow> Some (Suc i)
      | None \<Rightarrow> if x = k then Some 0 else None)"

definition periodHeader :: "string \<Rightarrow> bool" where
  \<comment> \<open>\<open>/month|date|period/i.test(h)\<close>\<close>
  "periodHeader h = (containsCI ''month'' h \<or> containsCI ''date'' h \<or> containsCI ''period'' h)"

definition tabularRow ::
  "string \<Rightarrow> string list \<Rightarrow> nat option \<Rightarrow> string list \<Rightarrow> string \<Rightarrow> metric_fact list" where
  \<comment> \<open>the facts one row pushes; \<open>String(undefined)\<close> is the cell of a missing column\<close>
  "tabularRow src keys monthIdx wanted row =
     (if \<not> hasComma row then []
      else
        (let cols = splitOn CHR '','' row;
             cell = (case monthIdx of
                       None \<Rightarrow> []
                     | Some mi \<Rightarrow> (case nth_opt cols mi of None \<Rightarrow> ''undefined'' | Some v \<Rightarrow> v))
         in case matchYear cell of
              None \<Rightarrow> []
            | Some y \<Rightarrow>
                concat (map (\<lambda>mk.
                  case parseCell (case lastIndexOf keys mk of
                                    None \<Rightarrow> None | Some idx \<Rightarrow> nth_opt cols idx) of
                    None \<Rightarrow> []
                  | Some val \<Rightarrow> [\<lparr>metric = mk, year = y, amount = val, fact_source = src\<rparr>])
                  wanted)))"

definition tabularFacts :: "string \<Rightarrow> string list \<Rightarrow> nat \<Rightarrow> metric_fact list" where
  \<comment> \<open>the CSV heuristic, given the index of the header line. The keys of \<open>metricIdxMap\<close>
      that name a metric are enumerated in the order of their first header.\<close>
  "tabularFacts src lines headerIdx =
     (let headers = map trim (splitOn CHR '','' (lines ! headerIdx));
          keys = map toLowerCase headers;
          monthIdx = findIndex periodHeader headers;
          wanted = filter testMetric (uniq keys)
      in concat (map (tabularRow src keys monthIdx wanted) (drop (Suc headerIdx) lines)))"

definition isNumChar :: "char \<Rightarrow> bool" where
  \<comment> \<open>the class \<open>[\d,.]\<close>\<close>
  "isNumChar c = (isDigit c \<or> c = CHR '','' \<or> c = CHR ''.'')"

datatype free_text_match =
  NoMatch
| NoNumber
| Match string string string nat

definition freeTextAt :: "string \<Rightarrow> free_text_match" where
  \<comment> \<open>the free-text pattern at the start of the input: a metric, non-digits, \<open>(19|20)\d{2}\<close>,
      non-digits, a number. The runs of non-digits are greedy and end at a digit, so the
      year and the number start at the first digits that follow. \<open>Match m1 m2 m3 n\<close> holds
      the three groups and the length of the match. \<open>NoNumber\<close>: no digit follows the
      year, so the third group can match separators only, which parse to NaN, and no
      later match finds a year.\<close>
  "freeTextAt s =
     (case eatMetric s of
        None \<Rightarrow> NoMatch
      | Some r \<Rightarrow>
          (let r1 = dropWhile (\<lambda>c. \<not> isDigit c) r in
           if \<not> yearAt r1 then NoMatch
           else
             (let r2 = dropWhile (\<lambda>c. \<not> isDigit c) (drop 4 r1) in
              if r2 = [] then NoNumber
              else
                (let m3 = takeWhile isNumChar r2 in
                 Match (take (length s - length r) s) (take 2 r1) m3
                   (length s - length r2 + length m3)))))"

fun freeTextLoop :: "string \<Rightarrow> string \<Rightarrow> metric_fact list" where
  \<comment> \<open>the \<open>while\<close> loop over \<open>re.exec(text)\<close>; the year of a fact is the second group,
      as in the source\<close>
  "freeTextLoop src [] = []"
| "freeTextLoop src (c # cs) =
     (case freeTextAt (c # cs) of
        NoMatch \<Rightarrow> freeTextLoop src cs
      | NoNumber \<Rightarrow> []
      | Match m1 m2 m3 n \<Rightarrow>
          (case parseFloat (stripNumeric m3) of
             None \<Rightarrow> []
           | Some num \<Rightarrow> [\<lparr>metric = toLowerCase m1, year = m2, amount = num, fact_source = src\<rparr>])
          @ freeTextLoop src (drop (n - 1) cs))"

definition docSource :: "es_doc \<Rightarrow> string" where
  \<comment> \<open>\<open>doc.title || doc.metadata?.fileName || 'document'\<close>\<close>
  "docSource doc =
     (if title doc \<noteq> [] then title doc
      else if fileName (metadata doc) \<noteq> [] then fileName (metadata doc)
      else ''document'')"

datatype heuristic = Tabular | FreeText

definition isHeaderLine :: "string \<Rightarrow> bool" where
  \<comment> \<open>the test of the header search: a comma and one of the six metric keywords\<close>
  "isHeaderLine l = (hasComma l \<and> testMetric l)"

definition docFacts :: "es_doc \<Rightarrow> heuristic \<times> metric_fact list" where
  \<comment> \<open>one iteration of the loop over the documents: the heuristic it runs and the facts
      it pushes\<close>
  "docFacts doc =
     (let src = docSource doc;
          lines = splitLines (content doc)
      in case findIndex isHeaderLine lines of
           Some headerIdx \<Rightarrow> (Tabular, tabularFacts src lines headerIdx)
         | None \<Rightarrow> (FreeText, freeTextLoop src (content doc)))"

fun factsLoop :: "es_doc list \<Rightarrow> metric_fact list \<Rightarrow> metric_fact list" where
  "factsLoop [] facts = facts"
| "factsLoop (doc # docs) facts = factsLoop docs (facts @ snd (docFacts doc))"

definition extractMetricYearFacts :: "es_doc list \<Rightarrow> metric_fact list" where
  "extractMetricYearFacts docs = factsLoop docs []"

section \<open>The request of hybridSearchDocuments\<close>

datatype should_clause =
  Knn string "rat list" int nat
| MultiMatch string "string list" string string

text \<open>
  \<open>Knn field query_vector k num_candidates\<close> and \<open>MultiMatch query fields type fuzziness\<close>.
  A field of a multi-match is written \<open>name^boost\<close>; a field without a boost has boost 1.
\<close>

record hybrid_body =
  hb_size :: int
  hb_should :: "should_clause list"
  hb_minimum_should_match :: nat
  hb_filter :: es_filters
  hb_source :: bool
  hb_highlight :: "(string \<times> nat) list"

definition hybridSearchBody :: "string \<Rightarrow> rat list \<Rightarrow> es_filters \<Rightarrow> int \<Rightarrow> hybrid_body" where
  \<comment> \<open>\<open>searchBody\<close> of \<open>hybridSearchDocuments\<close>, with the filters when they are given\<close>
  "hybridSearchBody q vec fs sz =
     \<lparr>hb_size = sz,
      hb_should =
        [Knn ''embedding'' vec (sz * 2) 100,
         MultiMatch q
           [''title^3'', ''content^2'', ''text'', ''metadata.summary^2'', ''metadata.fileName^4'']
           ''best_fields'' ''AUTO''],
      hb_minimum_should_match = 1,
      hb_filter = fs,
      hb_source = True,
      hb_highlight = [(''title'', 100), (''content'', 200), (''metadata.summary'', 150)]\<rparr>"

definition fieldBoost :: "string \<Rightarrow> string \<times> nat" where
  \<comment> \<open>the name and the boost of a field written \<open>name^boost\<close>\<close>
  "fieldBoost f =
     (let name = takeWhile (\<lambda>c. c \<noteq> CHR ''^'') f;
          rest = dropWhile (\<lambda>c. c \<noteq> CHR ''^'') f
      in (name, if rest = [] then 1 else natOfDigits (tl rest)))"

fun matchFields :: "should_clause list \<Rightarrow> string list" where
  \<comment> \<open>the fields of the first multi-match clause\<close>
  "matchFields [] = []"
| "matchFields (MultiMatch q fl t fz # cs) = fl"
| "matchFields (Knn f v k n # cs) = matchFields cs"

definition boostOf :: "hybrid_body \<Rightarrow> string \<Rightarrow> nat option" where
  "boostOf body name = map_of (map fieldBoost (matchFields (hb_should body))) name"

section \<open>The answer and the response\<close>

definition orDefault :: "string option \<Rightarrow> string \<Rightarrow> string" where
  \<comment> \<open>\<open>v || d\<close> on an optional string\<close>
  "orDefault v d = (if truthy v then the v else d)"

definition ellipsis :: "nat \<Rightarrow> string \<Rightarrow> string" where
  \<comment> \<open>\<open>s.substring(0, n) + (s.length > n ? '...' : '')\<close>\<close>
  "ellipsis n s = take n s @ (if length s > n then ''...'' else [])"

fun minus32 :: "char \<Rightarrow> char" where
  \<comment> \<open>subtracts 32 from a code unit whose bit 5 is set, as every small letter's is\<close>
  "minus32 (Char b0 b1 b2 b3 b4 b5 b6 b7) = Char b0 b1 b2 b3 b4 False b6 b7"

definition toUpperAscii :: "string \<Rightarrow> string" where
  \<comment> \<open>\<open>toUpperCase\<close> on the names of the document types, which are lower-case ASCII\<close>
  "toUpperAscii s = map (\<lambda>c. if 97 \<le> code c \<and> code c \<le> 122 then minus32 c else c) s"

definition docContext :: "nat \<Rightarrow> es_doc \<Rightarrow> doc_context" where
  "docContext index doc =
     \<lparr>dc_ordinal = index + 1, dc_title = title doc, dc_type = toUpperAscii (typeName (dtype doc)),
      dc_category = orDefault (category (metadata doc)) ''N/A'',
      dc_department = orDefault (department (metadata doc)) ''N/A'',
      dc_content = ellipsis 300 (content doc)\<rparr>"

definition lastN :: "nat \<Rightarrow> 'a list \<Rightarrow> 'a list" where
  \<comment> \<open>\<open>xs.slice(-n)\<close> for a positive n\<close>
  "lastN n xs = drop (length xs - n) xs"

definition historyLine :: "chat_message \<Rightarrow> string \<times> string" where
  "historyLine msg =
     (if isUser msg then ''User'' else ''Assistant'', ellipsis 200 (msg_content msg))"

definition apologyUnable :: string where
  "apologyUnable = ''I apologize, but I was unable to generate a response at this time.''"

definition apologyProcessing :: string where
  "apologyProcessing =
     ''I apologize, but I'' @ [CHR 0x27] @
     ''m having trouble processing your question right now. Please try again later.''"

definition callGeminiAPI :: "collaborators \<Rightarrow> prompt \<Rightarrow> (js_error + string) \<times> call list" where
  \<comment> \<open>the answer or the error thrown, and the request made if any\<close>
  "callGeminiAPI env p =
     (if \<not> c_geminiConfigured env then (Inl (Error ''Gemini API configuration missing''), [])
      else
        (case c_geminiFetch env p of
           NetworkError \<Rightarrow> (Inl (Error ''fetch failed''), [ModelCall p])
         | HttpResponse ok status body \<Rightarrow>
             if \<not> ok then (Inl (Error ''Gemini API request failed''), [ModelCall p])
             else
               (case body of
                  NotJson \<Rightarrow> (Inl (Error ''invalid JSON''), [ModelCall p])
                | JsonNull \<Rightarrow> (Inl (Error ''cannot read properties of null''), [ModelCall p])
                | JsonText t \<Rightarrow> (Inr (orDefault t apologyUnable), [ModelCall p]))))"

definition buildPrompt :: "string \<Rightarrow> es_doc list \<Rightarrow> chat_message list \<Rightarrow> prompt" where
  \<comment> \<open>\<open>finalPrompt\<close>: the financial block and the prompt\<close>
  "buildPrompt sanitizedQuery searchResults history =
     \<lparr>p_financials = financialsLoop searchResults [],
      p_resultCount = length searchResults,
      p_documents = map (\<lambda>(i, d). docContext i d) (enumerate 0 (take 5 searchResults)),
      p_history = map historyLine (lastN 6 history),
      p_question = sanitizedQuery\<rparr>"

definition generateAIResponse ::
  "collaborators \<Rightarrow> string \<Rightarrow> es_doc list \<Rightarrow> chat_message list \<Rightarrow> string \<times> call list" where
  \<comment> \<open>the \<open>catch\<close> turns every error of the model call into the apology\<close>
  "generateAIResponse env q searchResults history =
     (case callGeminiAPI env (buildPrompt (sanitizeInput q) searchResults history) of
        (Inr response, calls) \<Rightarrow> (response, calls)
      | (Inl e, calls) \<Rightarrow> (apologyProcessing, calls))"

record document_source =
  ds_id :: "string option"
  ds_title :: string
  ds_type :: doc_type
  relevanceScore :: rat
  excerpt :: string
  ds_metadata :: doc_metadata

definition convertToDocumentSources :: "es_doc list \<Rightarrow> document_source list" where
  "convertToDocumentSources results =
     map (\<lambda>doc.
       \<lparr>ds_id = doc_id doc, ds_title = title doc, ds_type = dtype doc,
        relevanceScore = (case es_score doc of None \<Rightarrow> 0 | Some s \<Rightarrow> s),
        excerpt = ellipsis 200 (content doc), ds_metadata = metadata doc\<rparr>) results"

record query_filters =
  documentTypes :: "doc_type list option"
  categories :: "string list option"
  departments :: "string list option"
  dateRange :: "(string \<times> string) option"
  filter_tags :: "string list option"

definition nonEmpty :: "'a list option \<Rightarrow> bool" where
  \<comment> \<open>\<open>xs && xs.length > 0\<close>\<close>
  "nonEmpty xs = (case xs of None \<Rightarrow> False | Some l \<Rightarrow> l \<noteq> [])"

definition buildSearchFilters :: "query_filters option \<Rightarrow> search_filter list" where
  "buildSearchFilters fs =
     (case fs of
        None \<Rightarrow> []
      | Some f \<Rightarrow>
          (if nonEmpty (documentTypes f) then [Terms ''type'' (map typeName (the (documentTypes f)))] else [])
          @ (if nonEmpty (categories f) then [Terms ''metadata.category.keyword'' (the (categories f))] else [])
          @ (if nonEmpty (departments f) then [Terms ''metadata.department.keyword'' (the (departments f))] else [])
          @ (if nonEmpty (filter_tags f) then [Terms ''metadata.tags'' (the (filter_tags f))] else [])
          @ (case dateRange f of
               None \<Rightarrow> []
             | Some (start, end') \<Rightarrow> [Range ''createdAt'' start end']))"

definition strIncludes :: "string \<Rightarrow> string \<Rightarrow> bool" where
  \<comment> \<open>\<open>s.includes(p)\<close>\<close>
  "strIncludes s p = anySuffix (\<lambda>t. take (length p) t = p) s"

definition expandUserQuery :: "string \<Rightarrow> string" where
  "expandUserQuery userQuery =
     (let q = toLowerCase userQuery;
          docTypes =
            (if strIncludes q ''policy'' \<or> strIncludes q ''guideline'' \<or> strIncludes q ''procedure''
             then [''pdf'', ''docx'', ''md''] else [])
            @ (if strIncludes q ''report'' \<or> strIncludes q ''metrics'' \<or> strIncludes q ''trend''
               then [''xlsx'', ''csv'', ''pdf''] else [])
            @ (if strIncludes q ''api'' \<or> strIncludes q ''schema'' \<or> strIncludes q ''json''
               then [''json'', ''md''] else [])
            @ (if strIncludes q ''meeting'' \<or> strIncludes q ''notes''
               then [''txt'', ''md'', ''docx''] else []);
          metaHints =
            (if strIncludes q ''department'' then [''metadata.department''] else [])
            @ (if strIncludes q ''author'' \<or> strIncludes q ''owner'' then [''metadata.author''] else [])
            @ (if strIncludes q ''tag'' \<or> strIncludes q ''topic'' then [''metadata.tags''] else [])
            @ (if strIncludes q ''category'' then [''metadata.category''] else []);
          uniqueDocTypes = uniq docTypes;
          uniqueFields = uniq ([''title'', ''content'', ''metadata.summary''] @ metaHints)
      in ''Focus on document types: ''
         @ (if uniqueDocTypes \<noteq> [] then joinWith '', '' uniqueDocTypes
            else ''pdf, docx, md, xlsx, csv, json, txt'')
         @ ''. Search fields: '' @ joinWith '', '' uniqueFields @ ''.'')"

record query_request =
  query :: string
  filters :: "query_filters option"
  chatHistory :: "chat_message list option"
  useVectorSearch :: "bool option"
  maxResults :: "int option"

record query_data =
  answer :: string
  sources :: "document_source list"
  totalHits :: nat
  queryTime :: int
  expandedQuery :: string

record http_response =
  status :: nat
  success :: bool
  response_data :: "query_data option"
  response_error :: "string option"
  response_timestamp :: string

text \<open>The clock: \<open>Date.now()\<close> at the two reads and the time stamp of the response.\<close>

record clock =
  startTime :: int
  endTime :: int
  isoTime :: string

definition createErrorResponse :: "clock \<Rightarrow> string \<Rightarrow> nat \<Rightarrow> http_response" where
  "createErrorResponse clk message st =
     \<lparr>status = st, success = False, response_data = None, response_error = Some message,
      response_timestamp = isoTime clk\<rparr>"

definition createSuccessResponse :: "clock \<Rightarrow> query_data \<Rightarrow> http_response" where
  "createSuccessResponse clk d =
     \<lparr>status = 200, success = True, response_data = Some d, response_error = None,
      response_timestamp = isoTime clk\<rparr>"

definition handleQuery ::
  "collaborators \<Rightarrow> clock \<Rightarrow> query_request option \<Rightarrow> http_response \<times> call list" where
  \<comment> \<open>The body is \<open>None\<close> when \<open>request.json()\<close> throws. Neither \<open>multiSearch\<close> nor
      \<open>generateAIResponse\<close> throws on values of their types, so the inner \<open>catch\<close> is
      not a branch here.\<close>
  "handleQuery env clk body =
     (case body of
        None \<Rightarrow> (createErrorResponse clk ''Internal server error during query processing'' 500, [])
      | Some b \<Rightarrow>
          (let sanitizedQuery = sanitizeInput (query b) in
           if trim sanitizedQuery = [] then (createErrorResponse clk ''Query is required'' 400, [])
           else
             (let history = (case chatHistory b of None \<Rightarrow> [] | Some h \<Rightarrow> h);
                  useVector = (case useVectorSearch b of None \<Rightarrow> True | Some u \<Rightarrow> u);
                  limit = (case maxResults b of None \<Rightarrow> 10 | Some n \<Rightarrow> n);
                  searchFilters = buildSearchFilters (filters b);
                  plan = planInformationNeeds sanitizedQuery;
                  queries = sanitizedQuery # searchQueries plan;
                  (searchResults, calls1) =
                     multiSearch env sanitizedQuery queries
                       (if searchFilters \<noteq> [] then Some searchFilters else None) useVector limit;
                  (ans, calls2) = generateAIResponse env sanitizedQuery searchResults history
              in (createSuccessResponse clk
                    \<lparr>answer = ans, sources = convertToDocumentSources searchResults,
                     totalHits = length searchResults,
                     queryTime = endTime clk - startTime clk,
                     expandedQuery = expandUserQuery sanitizedQuery\<rparr>,
                  calls1 @ calls2))))"

section \<open>Notions of the theorems, and sample data\<close>

text \<open>
  The hits one query contributes, the flat list of all hits in the order of the queries,
  and the first occurrences of a list of hits that are not in a set of identities. The
  source does not build these lists: the theorems relate its loops to them.
\<close>

definition queryHits ::
  "collaborators \<Rightarrow> es_filters \<Rightarrow> bool \<Rightarrow> int \<Rightarrow> string \<Rightarrow> es_doc list" where
  "queryHits env fs useVector k q =
     (case fst (searchOne env fs useVector k q) of None \<Rightarrow> [] | Some rs \<Rightarrow> rs)"

definition fanOut ::
  "collaborators \<Rightarrow> es_filters \<Rightarrow> bool \<Rightarrow> int \<Rightarrow> string list \<Rightarrow> es_doc list" where
  "fanOut env fs useVector k qs = concat (map (queryHits env fs useVector k) qs)"

fun firstNew :: "string set \<Rightarrow> es_doc list \<Rightarrow> es_doc list" where
  "firstNew seen [] = []"
| "firstNew seen (r # rs) =
     (if hitKey r \<notin> seen then r # firstNew (insert (hitKey r) seen) rs else firstNew seen rs)"

definition sampleMetadata :: doc_metadata where
  "sampleMetadata =
     \<lparr>fileName = ''report.txt'', fileSize = 0, mimeType = ''text/plain'',
      uploadDate = ''2024-01-01'', tags = None, category = None, author = None,
      department = None, project = None, version = None, language = None, summary = None\<rparr>"

definition sampleDoc :: "string \<Rightarrow> doc_type \<Rightarrow> string \<Rightarrow> es_doc" where
  \<comment> \<open>a document with the given id (also its title), type and content\<close>
  "sampleDoc i t c =
     \<lparr>doc_id = Some i, title = i, content = c, doc_text = c, dtype = t,
      metadata = sampleMetadata, embedding = [], createdAt = ''2024-01-01'',
      updatedAt = ''2024-01-01'', es_id = None, es_score = None\<rparr>"

definition throwingHybridEnv :: collaborators where
  \<comment> \<open>hybrid search throws; lexical search would find a document\<close>
  "throwingHybridEnv =
     \<lparr>c_generateEmbedding = (\<lambda>q. []),
      c_hybridSearchDocuments = (\<lambda>q e f k. Inl (Error ''index unavailable'')),
      c_textSearchDocuments = (\<lambda>q f k. Inr [sampleDoc ''doc1'' Txt []]),
      c_geminiConfigured = True,
      c_geminiFetch = (\<lambda>p. HttpResponse True 200 (JsonText (Some ''ok'')))\<rparr>"

definition emptyHybridEnv :: collaborators where
  \<comment> \<open>hybrid search finds nothing; lexical search finds a document\<close>
  "emptyHybridEnv =
     \<lparr>c_generateEmbedding = (\<lambda>q. []),
      c_hybridSearchDocuments = (\<lambda>q e f k. Inr []),
      c_textSearchDocuments = (\<lambda>q f k. Inr [sampleDoc ''doc1'' Txt []]),
      c_geminiConfigured = True,
      c_geminiFetch = (\<lambda>p. HttpResponse True 200 (JsonText (Some ''ok'')))\<rparr>"

definition twoListsEnv :: collaborators where
  \<comment> \<open>the query \<open>q1\<close> finds \<open>doc0\<close> and \<open>doc1\<close>, every other query finds \<open>doc1\<close>\<close>
  "twoListsEnv =
     \<lparr>c_generateEmbedding = (\<lambda>q. []),
      c_hybridSearchDocuments =
        (\<lambda>q e f k. if q = ''q1'' then Inr [sampleDoc ''doc0'' Txt [], sampleDoc ''doc1'' Txt []]
                    else Inr [sampleDoc ''doc1'' Txt []]),
      c_textSearchDocuments = (\<lambda>q f k. Inr []),
      c_geminiConfigured = True,
      c_geminiFetch = (\<lambda>p. HttpResponse True 200 (JsonText (Some ''ok'')))\<rparr>"

definition tableAndProse :: string where
  \<comment> \<open>a table of two lines followed by a sentence\<close>
  "tableAndProse = ''Month,Revenue'' @ [LF] @ ''Jan-2021,1000'' @ [LF] @ ''Revenue in 2020 was 5''"

text \<open>
  For the revenue extractor: the year and the revenue of every row that contributes, in
  the order of the rows; the total a list of such entries holds for a year; the documents
  whose revenue goes to the financial block; and the shape of a record of years.
\<close>

definition revenueEntries :: "string \<Rightarrow> (string \<times> rat) list" where
  \<comment> \<open>as \<open>extractRevenueByYearFromCsvContent\<close>, with the rows collected instead of added up\<close>
  "revenueEntries csv =
     (let lines = filter (\<lambda>l. l \<noteq> []) (splitLines csv) in
      case findIndex (\<lambda>l. hasComma l \<and> containsCI ''revenue'' l) lines of
        None \<Rightarrow> []
      | Some headerIdx \<Rightarrow>
          (let headers = map trim (splitOn CHR '','' (lines ! headerIdx));
               monthIdx = findIndex (containsCI ''month'') headers
           in case findIndex (containsCI ''revenue'') headers of
                None \<Rightarrow> []
              | Some revenueIdx \<Rightarrow>
                  List.map_filter (revenueRow monthIdx revenueIdx) (drop (Suc headerIdx) lines)))"

definition totalFor :: "string \<Rightarrow> (string \<times> rat) list \<Rightarrow> rat" where
  "totalFor y es = sum_list (map snd (filter (\<lambda>e. fst e = y) es))"

definition csvWithRevenue :: "es_doc \<Rightarrow> bool" where
  "csvWithRevenue doc = (dtype doc = Csv \<and> containsCI ''revenue'' (content doc))"

definition year4 :: "string \<Rightarrow> bool" where
  "year4 k = (length k = 4 \<and> list_all isDigit k)"

definition yearSorted :: "(string \<times> rat) list \<Rightarrow> bool" where
  "yearSorted m =
     (sorted_wrt (\<lambda>a b. natOfDigits (fst a) < natOfDigits (fst b)) m
      \<and> (\<forall>e \<in> set m. year4 (fst e)))"

definition revenueTable :: string where
  \<comment> \<open>the header \<open>Month,Revenue\<close> and two rows of the year 2021\<close>
  "revenueTable = ''Month,Revenue'' @ [LF] @ ''Jan-2021,1000'' @ [LF] @ ''Feb-2021,2000''"

text \<open>A year is a token of a string when it occurs there between word boundaries.\<close>

definition yearToken :: "string \<Rightarrow> string \<Rightarrow> bool" where
  "yearToken y s =
     (\<exists>pre post. s = pre @ y @ post
        \<and> (pre = [] \<or> \<not> isWordChar (last pre))
        \<and> (post = [] \<or> \<not> isWordChar (hd post)))"

text \<open>
  For the handler: the search a request leads to, the prompt built from its results, the
  answer, and the ways the call of the model fails: no configuration, a request that
  throws, a status that is not ok, a body that is not JSON or is \<open>null\<close>, a body without a
  text.
\<close>

definition requestSearch :: "collaborators \<Rightarrow> query_request \<Rightarrow> es_doc list \<times> call list" where
  "requestSearch env b =
     (let sanitizedQuery = sanitizeInput (query b);
          searchFilters = buildSearchFilters (filters b)
      in multiSearch env sanitizedQuery
           (sanitizedQuery # searchQueries (planInformationNeeds sanitizedQuery))
           (if searchFilters \<noteq> [] then Some searchFilters else None)
           (case useVectorSearch b of None \<Rightarrow> True | Some u \<Rightarrow> u)
           (case maxResults b of None \<Rightarrow> 10 | Some n \<Rightarrow> n))"

definition requestPrompt :: "collaborators \<Rightarrow> query_request \<Rightarrow> prompt" where
  "requestPrompt env b =
     buildPrompt (sanitizeInput (sanitizeInput (query b))) (fst (requestSearch env b))
       (case chatHistory b of None \<Rightarrow> [] | Some h \<Rightarrow> h)"


definition requestAnswer :: "collaborators \<Rightarrow> query_request \<Rightarrow> string" where
  "requestAnswer env b =
     (case fst (callGeminiAPI env (requestPrompt env b)) of
        Inr t \<Rightarrow> t
      | Inl e \<Rightarrow> apologyProcessing)"

definition longQuery :: string where
  "longQuery = replicate 1001 CHR ''a''"

definition plainRequest :: "string \<Rightarrow> query_request" where
  "plainRequest q =
     \<lparr>query = q, filters = None, chatHistory = None, useVectorSearch = None, maxResults = None\<rparr>"



section \<open>Lemmas on multiSearch\<close>

lemma mergeResults_firstNew:
  "mergeResults rs (seen, merged) = (seen \<union> hitKey ` set rs, merged @ firstNew seen rs)"
  by (induction rs arbitrary: seen merged) auto

lemma firstNew_append:
  "firstNew seen (xs @ ys) = firstNew seen xs @ firstNew (seen \<union> hitKey ` set xs) ys"
  by (induction xs arbitrary: seen) (auto simp: insert_absorb)

lemma fanOut_Nil: "fanOut env fs uv k [] = []"
  by (simp add: fanOut_def)

lemma fanOut_Cons:
  "fanOut env fs uv k (q # qs) = queryHits env fs uv k q @ fanOut env fs uv k qs"
  by (simp add: fanOut_def)

lemma searchLoop_state:
  "fst (searchLoop env fs uv k qs ((seen, merged), calls)) =
     (seen \<union> hitKey ` set (fanOut env fs uv k qs),
      merged @ firstNew seen (fanOut env fs uv k qs))"
proof (induction qs arbitrary: seen merged calls)
  case Nil
  then show ?case by (simp add: fanOut_Nil)
next
  case (Cons q qs)
  obtain r cs where so: "searchOne env fs uv k q = (r, cs)"
    by (cases "searchOne env fs uv k q")
  show ?case
  proof (cases r)
    case None
    with so have "queryHits env fs uv k q = []" by (simp add: queryHits_def)
    with None so Cons show ?thesis by (simp add: fanOut_Cons)
  next
    case (Some rs)
    with so have "queryHits env fs uv k q = rs" by (simp add: queryHits_def)
    with Some so Cons show ?thesis
      by (simp add: fanOut_Cons mergeResults_firstNew firstNew_append Un_assoc image_Un)
  qed
qed

lemma searchLoop_calls:
  "snd (searchLoop env fs uv k qs (st, calls)) =
     calls @ concat (map (\<lambda>q. snd (searchOne env fs uv k q)) qs)"
proof (induction qs arbitrary: st calls)
  case Nil
  then show ?case by simp
next
  case (Cons q qs)
  obtain r cs where so: "searchOne env fs uv k q = (r, cs)"
    by (cases "searchOne env fs uv k q")
  show ?case using so Cons by (cases r) simp_all
qed

lemma firstNew_keys_notin: "h \<in> set (firstNew seen xs) \<Longrightarrow> hitKey h \<notin> seen"
  by (induction xs arbitrary: seen) (auto split: if_splits)

lemma firstNew_distinct: "distinct (map hitKey (firstNew seen xs))"
  by (induction xs arbitrary: seen) (auto dest: firstNew_keys_notin)

lemma firstNew_keys: "hitKey ` set (firstNew seen xs) = hitKey ` set xs - seen"
  by (induction xs arbitrary: seen) auto

lemma firstNew_subseq: "subseq (firstNew seen xs) xs"
  by (induction xs arbitrary: seen) auto

lemma firstNew_find:
  "h \<in> set (firstNew seen xs) \<Longrightarrow> find (\<lambda>x. hitKey x = hitKey h) xs = Some h"
proof (induction xs arbitrary: seen)
  case Nil
  then show ?case by simp
next
  case (Cons x xs)
  show ?case
  proof (cases "hitKey x = hitKey h")
    case True
    with Cons.prems have "h = x"
      by (auto split: if_splits dest: firstNew_keys_notin)
    then show ?thesis by simp
  next
    case False
    with Cons show ?thesis by (auto split: if_splits)
  qed
qed

lemma multiSearchState_fst:
  "fst (multiSearchState env qs fs uv n) =
     (hitKey ` set (fanOut env fs uv (topKPerQuery n) (take 6 qs)),
      firstNew {} (fanOut env fs uv (topKPerQuery n) (take 6 qs)))"
  unfolding multiSearchState_def by (simp add: searchLoop_state)

lemma multiSearchState_snd:
  "snd (multiSearchState env qs fs uv n) =
     concat (map (\<lambda>q. snd (searchOne env fs uv (topKPerQuery n) q)) (take 6 qs))"
  unfolding multiSearchState_def by (simp add: searchLoop_calls)

lemma multiSearch_eq:
  "multiSearch env uq qs fs uv n =
     (slice0 (snd (fst (multiSearchState env qs fs uv n))) n,
      snd (multiSearchState env qs fs uv n))"
  by (simp add: multiSearch_def split: prod.splits)

lemma slice0_length: "0 \<le> n \<Longrightarrow> int (length (slice0 xs n)) \<le> n"
  by (simp add: slice0_def)

lemma hitKey_sampleDoc: "i \<noteq> [] \<Longrightarrow> hitKey (sampleDoc i t c) = i"
  by (simp add: hitKey_def sampleDoc_def truthy_def)

lemma textCall_searchOne:
  "TextSearchCall q fs k \<in> set (snd (searchOne env fs' True k' q')) \<Longrightarrow>
   q' = q \<and> (\<exists>vec. c_hybridSearchDocuments env q vec fs' k' = Inr [])"
  by (auto simp: searchOne_def Let_def split: sum.splits if_splits)

section \<open>Lemmas on the extractors\<close>

lemma findIndex_None: "findIndex P xs = None \<longleftrightarrow> (\<forall>x \<in> set xs. \<not> P x)"
  by (induction xs) auto

lemma findIndex_Some:
  "findIndex P xs = Some i \<Longrightarrow> i < length xs \<and> P (xs ! i) \<and> (\<forall>j < i. \<not> P (xs ! j))"
proof (induction xs arbitrary: i)
  case Nil
  then show ?case by simp
next
  case (Cons x xs)
  show ?case
  proof (cases "P x")
    case True
    with Cons.prems show ?thesis by simp
  next
    case False
    with Cons.prems obtain i' where i': "findIndex P xs = Some i'" "i = Suc i'"
      by auto
    from Cons.IH [OF i'(1)] False i'(2) show ?thesis
      by (auto simp: less_Suc_eq_0_disj)
  qed
qed

lemma factsLoop_concat: "factsLoop docs acc = acc @ concat (map (\<lambda>d. snd (docFacts d)) docs)"
  by (induction docs arbitrary: acc) simp_all

lemma content_sampleDoc: "content (sampleDoc i t c) = c"
  by (simp add: sampleDoc_def)

lemma docSource_sampleDoc: "i \<noteq> [] \<Longrightarrow> docSource (sampleDoc i t c) = i"
  by (simp add: sampleDoc_def docSource_def)

lemma map_of_recordSet: "map_of (recordSet k v m) = (map_of m)(k \<mapsto> v)"
  by (induction m) (auto simp: fun_eq_iff)

lemma recordGet0_recordAdd:
  "recordGet0 (recordAdd k v m) y = (if y = k then recordGet0 m k + v else recordGet0 m y)"
  by (simp add: recordGet0_def recordAdd_def map_of_recordSet)

lemma totalFor_Nil: "totalFor y [] = 0"
  by (simp add: totalFor_def)

lemma totalFor_Cons:
  "totalFor y ((k, v) # es) = (if k = y then v + totalFor y es else totalFor y es)"
  by (simp add: totalFor_def)

lemma revenueLoop_get:
  "recordGet0 (revenueLoop mi ri rows acc) y =
     recordGet0 acc y + totalFor y (List.map_filter (revenueRow mi ri) rows)"
proof (induction rows arbitrary: acc)
  case Nil
  then show ?case by (simp add: List.map_filter_simps totalFor_Nil)
next
  case (Cons row rows)
  show ?case
  proof (cases "revenueRow mi ri row")
    case None
    with Cons show ?thesis by (simp add: List.map_filter_simps)
  next
    case (Some e)
    obtain k v where e: "e = (k, v)" by (cases e)
    with Some Cons show ?thesis
      by (simp add: List.map_filter_simps totalFor_Cons recordGet0_recordAdd)
  qed
qed

lemma fold_recordAdd_get:
  "recordGet0 (fold (\<lambda>(k, v) f. recordAdd k v f) es m) y = recordGet0 m y + totalFor y es"
proof (induction es arbitrary: m)
  case Nil
  then show ?case by (simp add: totalFor_Nil)
next
  case (Cons e es)
  obtain k v where e: "e = (k, v)" by (cases e)
  with Cons show ?case by (simp add: totalFor_Cons recordGet0_recordAdd)
qed

lemma recordGet0_Nil: "recordGet0 [] y = 0"
  by (simp add: recordGet0_def)

lemma extract_get:
  "recordGet0 (extractRevenueByYearFromCsvContent csv) y = totalFor y (revenueEntries csv)"
  by (simp add: extractRevenueByYearFromCsvContent_def revenueEntries_def Let_def
      revenueLoop_get recordGet0_Nil totalFor_Nil split: option.splits)

lemma totalFor_distinct:
  "distinct (map fst m) \<Longrightarrow> totalFor y m = recordGet0 m y"
proof (induction m)
  case Nil
  then show ?case by (simp add: totalFor_Nil recordGet0_Nil)
next
  case (Cons e m)
  obtain k v where e: "e = (k, v)" by (cases e)
  show ?case
  proof (cases "k = y")
    case True
    with Cons.prems e have "y \<notin> fst ` set m" by auto
    then have "filter (\<lambda>e. fst e = y) m = []" by (auto simp: filter_empty_conv)
    then have "totalFor y m = 0" by (simp add: totalFor_def)
    with True e show ?thesis by (simp add: totalFor_Cons recordGet0_def)
  next
    case False
    with Cons e show ?thesis by (simp add: totalFor_Cons recordGet0_def)
  qed
qed

lemma digitVal_inj: "isDigit a \<Longrightarrow> isDigit b \<Longrightarrow> digitVal a = digitVal b \<Longrightarrow> a = b"
proof -
  assume "isDigit a" "isDigit b" "digitVal a = digitVal b"
  then have "code a = code b"
    unfolding isDigit_def digitVal_def by arith
  then show "a = b" by (simp add: code_def)
qed

lemma digitVal_less: "isDigit a \<Longrightarrow> digitVal a < 10"
  by (auto simp: isDigit_def digitVal_def)

lemma year4_cases:
  "year4 k \<Longrightarrow> \<exists>a b c d. k = [a, b, c, d] \<and> isDigit a \<and> isDigit b \<and> isDigit c \<and> isDigit d"
  by (auto simp: year4_def length_Suc_conv eval_nat_numeral)

lemma natOfDigits_4:
  "natOfDigits [a, b, c, d] = ((digitVal a * 10 + digitVal b) * 10 + digitVal c) * 10 + digitVal d"
  by (simp add: natOfDigits_def)

lemma base10_inj:
  "d < 10 \<Longrightarrow> d' < 10 \<Longrightarrow> x * 10 + d = x' * 10 + d' \<Longrightarrow> x = x' \<and> d = (d'::nat)"
  by arith

lemma natOfDigits_inj: "year4 k \<Longrightarrow> year4 k' \<Longrightarrow> natOfDigits k = natOfDigits k' \<Longrightarrow> k = k'"
proof -
  assume k: "year4 k" and k': "year4 k'" and eq: "natOfDigits k = natOfDigits k'"
  from year4_cases [OF k] obtain a b c d where
    kd: "k = [a, b, c, d]" "isDigit a" "isDigit b" "isDigit c" "isDigit d" by blast
  from year4_cases [OF k'] obtain a' b' c' d' where
    kd': "k' = [a', b', c', d']" "isDigit a'" "isDigit b'" "isDigit c'" "isDigit d'" by blast
  note lt = kd(2-5) [THEN digitVal_less] kd'(2-5) [THEN digitVal_less]
  from eq kd(1) kd'(1)
  have "((digitVal a * 10 + digitVal b) * 10 + digitVal c) * 10 + digitVal d
      = ((digitVal a' * 10 + digitVal b') * 10 + digitVal c') * 10 + digitVal d'"
    by (simp only: natOfDigits_4)
  with lt have "digitVal a = digitVal a' \<and> digitVal b = digitVal b'
      \<and> digitVal c = digitVal c' \<and> digitVal d = digitVal d'"
    by (metis base10_inj)
  with kd kd' show "k = k'" by (simp add: digitVal_inj)
qed

lemma recordSet_keys:
  "x \<in> set (recordSet k v m) \<Longrightarrow> fst x = k \<or> fst x \<in> fst ` set m"
  by (induction m) (force split: if_splits)+

lemma recordSet_sorted:
  "year4 k \<Longrightarrow> yearSorted m \<Longrightarrow> yearSorted (recordSet k v m)"
proof (induction m)
  case Nil
  then show ?case by (simp add: yearSorted_def)
next
  case (Cons e m)
  obtain k' v' where e: "e = (k', v')" by (cases e)
  from Cons.prems(2) have tl: "yearSorted m" and k': "year4 k'"
    and lt: "\<forall>x \<in> set m. natOfDigits k' < natOfDigits (fst x)"
    by (auto simp: yearSorted_def e)
  show ?case
  proof (cases "k' = k")
    case True
    with Cons.prems e show ?thesis by (auto simp: yearSorted_def)
  next
    case False
    show ?thesis
    proof (cases "natOfDigits k < natOfDigits k'")
      case True
      with False Cons.prems e lt show ?thesis
        by (fastforce simp: yearSorted_def)
    next
      case ge: False
      from False natOfDigits_inj [OF Cons.prems(1) k'] have "natOfDigits k \<noteq> natOfDigits k'"
        by auto
      with ge have l: "natOfDigits k' < natOfDigits k" by simp
      have ih: "yearSorted (recordSet k v m)" using Cons.IH [OF Cons.prems(1) tl] .
      have "\<forall>x \<in> set (recordSet k v m). natOfDigits k' < natOfDigits (fst x)"
      proof
        fix x assume "x \<in> set (recordSet k v m)"
        then have "fst x \<in> insert k (fst ` set m)"
          using recordSet_keys [of x k v m] by blast
        with l lt show "natOfDigits k' < natOfDigits (fst x)" by auto
      qed
      with False ge e ih k' show ?thesis
        by (auto simp: yearSorted_def)
    qed
  qed
qed

lemma yearSorted_distinct: "yearSorted m \<Longrightarrow> distinct (map fst m)"
  by (induction m) (auto simp: yearSorted_def)

lemma isDigit_consts: "isDigit CHR ''1''" "isDigit CHR ''9''" "isDigit CHR ''2''" "isDigit CHR ''0''"
  by (simp_all add: isDigit_def code_def)

lemma yearAt_year4: "yearAt s \<Longrightarrow> year4 (take 4 s)"
  by (induction s rule: yearAt.induct) (auto simp: year4_def isDigit_consts)

lemma matchYear_year4: "matchYear s = Some y \<Longrightarrow> year4 y"
proof (induction s)
  case Nil
  then show ?case by simp
next
  case (Cons c cs)
  show ?case
  proof (cases "yearAt (c # cs)")
    case True
    with Cons.prems have "y = take 4 (c # cs)" by (simp del: take_Cons_numeral)
    with True show ?thesis by (simp only: yearAt_year4)
  next
    case False
    with Cons show ?thesis by simp
  qed
qed

lemma revenueRow_year4: "revenueRow mi ri row = Some (y, v) \<Longrightarrow> year4 y"
  by (auto simp: revenueRow_def Let_def matchYear_year4 split: if_splits option.splits)

lemma revenueLoop_sorted:
  "yearSorted acc \<Longrightarrow> yearSorted (revenueLoop mi ri rows acc)"
proof (induction rows arbitrary: acc)
  case Nil
  then show ?case by simp
next
  case (Cons row rows)
  show ?case
  proof (cases "revenueRow mi ri row")
    case None
    with Cons show ?thesis by simp
  next
    case (Some e)
    obtain y v where e: "e = (y, v)" by (cases e)
    with Some have "year4 y" by (auto dest: revenueRow_year4)
    with Cons Some e show ?thesis
      by (simp add: recordAdd_def recordSet_sorted)
  qed
qed

lemma extract_distinct: "distinct (map fst (extractRevenueByYearFromCsvContent csv))"
proof -
  have n: "yearSorted []" by (simp add: yearSorted_def)
  have "yearSorted (extractRevenueByYearFromCsvContent csv)"
    by (simp add: extractRevenueByYearFromCsvContent_def Let_def revenueLoop_sorted n
        split: option.splits)
  then show ?thesis by (rule yearSorted_distinct)
qed

lemma financialsLoop_get:
  "recordGet0 (financialsLoop docs acc) y =
     recordGet0 acc y
     + sum_list (map (\<lambda>d. recordGet0 (extractRevenueByYearFromCsvContent (content d)) y)
         (filter csvWithRevenue docs))"
proof (induction docs arbitrary: acc)
  case Nil
  then show ?case by simp
next
  case (Cons doc docs)
  show ?case
  proof (cases "csvWithRevenue doc")
    case True
    then have c: "dtype doc = Csv \<and> containsCI ''revenue'' (content doc)"
      by (simp add: csvWithRevenue_def)
    have "totalFor y (extractRevenueByYearFromCsvContent (content doc))
        = recordGet0 (extractRevenueByYearFromCsvContent (content doc)) y"
      by (rule totalFor_distinct) (rule extract_distinct)
    moreover from c have "financialsLoop (doc # docs) acc =
        financialsLoop docs (fold (\<lambda>(k, v) f. recordAdd k v f)
          (extractRevenueByYearFromCsvContent (content doc)) acc)"
      by simp
    ultimately show ?thesis using True Cons
      by (simp add: fold_recordAdd_get)
  next
    case False
    then have "financialsLoop (doc # docs) acc = financialsLoop docs acc"
      by (auto simp: csvWithRevenue_def)
    with False Cons show ?thesis by simp
  qed
qed

section \<open>Lemmas on the planner\<close>

lemma lowerChar_digit: "isDigit (lowerChar c) \<Longrightarrow> lowerChar c = c"
  by (cases c) (auto simp add: code_def lowerChar_def isDigit_def split: if_splits)

lemma lowerChar_word: "isWordChar (lowerChar c) = isWordChar c"
  by (cases c) (auto simp add: code_def lowerChar_def isWordChar_def split: if_splits)

lemma yearAt_length: "yearAt s \<Longrightarrow> 4 \<le> length s"
  by (induction s rule: yearAt.induct) auto

lemma scanYears_tokens:
  "y \<in> set (scanYears pw s) \<Longrightarrow>
   \<exists>pre post. s = pre @ y @ post
      \<and> (if pre = [] then \<not> pw else \<not> isWordChar (last pre))
      \<and> (post = [] \<or> \<not> isWordChar (hd post))
      \<and> yearAt y \<and> length y = 4"
proof (induction pw s rule: scanYears.induct)
  case (1 prevWord)
  then show ?case by simp
next
  case (2 prevWord c cs)
  let ?m = "\<not> prevWord \<and> yearAt (c # cs) \<and> \<not> startsWithWord (drop 3 cs)"
  show ?case
  proof (cases ?m)
    case True
    then have ya: "yearAt (c # cs)" and len: "3 \<le> length cs"
      using yearAt_length [of "c # cs"] by auto
    from True "2.prems" have "y = take 4 (c # cs) \<or> y \<in> set (scanYears True (drop 3 cs))"
      by (simp del: take_Cons_numeral)
    then show ?thesis
    proof
      assume y: "y = take 4 (c # cs)"
      have s: "c # cs = [] @ y @ drop 3 cs"
        unfolding y using append_take_drop_id [of 4 "c # cs"] by simp
      have ly: "length y = 4" using len y by simp
      have yy: "yearAt y"
        using ya y by (cases cs rule: list.exhaust; simp; cases "tl cs"; simp; cases "tl (tl cs)"; simp)
      from True have "drop 3 cs = [] \<or> \<not> isWordChar (hd (drop 3 cs))"
        by (auto simp: startsWithWord_def)
      with s ly yy True show ?thesis by (metis (full_types))
    next
      assume "y \<in> set (scanYears True (drop 3 cs))"
      from "2.IH"(1) [OF True this] obtain pre post where
        p: "drop 3 cs = pre @ y @ post" "pre \<noteq> []" "\<not> isWordChar (last pre)"
           "post = [] \<or> \<not> isWordChar (hd post)" "yearAt y" "length y = 4"
        by (auto split: if_splits)
      have "c # cs = (take 4 (c # cs) @ pre) @ y @ post"
        using append_take_drop_id [of 4 "c # cs"] p(1) by simp
      moreover have "take 4 (c # cs) @ pre \<noteq> []" using p(2) by simp
      moreover have "last (take 4 (c # cs) @ pre) = last pre" using p(2) by simp
      ultimately show ?thesis using p by (metis (full_types))
    qed
  next
    case False
    with "2.prems" have "y \<in> set (scanYears (isWordChar c) cs)" by auto
    from "2.IH"(2) [OF False this] obtain pre post where
      p: "cs = pre @ y @ post" "if pre = [] then \<not> isWordChar c else \<not> isWordChar (last pre)"
         "post = [] \<or> \<not> isWordChar (hd post)" "yearAt y" "length y = 4"
      by blast
    have "c # cs = (c # pre) @ y @ post" using p(1) by simp
    moreover have "\<not> isWordChar (last (c # pre))" using p(2) by (auto split: if_splits)
    ultimately show ?thesis using p by (metis (full_types) list.distinct(1))
  qed
qed


lemma digitVal_consts:
  "digitVal CHR ''0'' = 0" "digitVal CHR ''1'' = 1" "digitVal CHR ''2'' = 2" "digitVal CHR ''9'' = 9"
  by (simp_all add: digitVal_def code_def)

lemma yearAt_range:
  "yearAt y \<Longrightarrow> length y = 4 \<Longrightarrow>
   year4 y \<and> 1900 \<le> natOfDigits y \<and> natOfDigits y \<le> 2099"
proof -
  assume ya: "yearAt y" and l: "length y = 4"
  from l obtain a b c d where y: "y = [a, b, c, d]"
    by (auto simp: length_Suc_conv eval_nat_numeral)
  from yearAt_year4 [OF ya] l have y4: "year4 y" by simp
  from ya y have cd: "isDigit c" "isDigit d"
    and ab: "(a = CHR ''1'' \<and> b = CHR ''9'') \<or> (a = CHR ''2'' \<and> b = CHR ''0'')"
    by auto
  from cd have "digitVal c < 10" "digitVal d < 10" by (simp_all add: digitVal_less)
  with ab y have "1900 \<le> natOfDigits y \<and> natOfDigits y \<le> 2099"
    by (auto simp: natOfDigits_4 digitVal_consts)
  with y4 show ?thesis by simp
qed

lemma lowerChar_digits: "list_all isDigit (map lowerChar ys) \<Longrightarrow> map lowerChar ys = ys"
  by (induction ys) (auto intro: lowerChar_digit)

lemma token_toLowerCase:
  assumes "toLowerCase u = pre @ y @ post" and "list_all isDigit y"
    and "pre = [] \<or> \<not> isWordChar (last pre)" and "post = [] \<or> \<not> isWordChar (hd post)"
  shows "yearToken y u"
proof -
  from assms(1) obtain pre' r where u1: "u = pre' @ r" and p: "pre = map lowerChar pre'"
    and r: "y @ post = map lowerChar r"
    unfolding toLowerCase_def by (auto simp: map_eq_append_conv)
  from r obtain y' post' where u2: "r = y' @ post'" and yy: "y = map lowerChar y'"
    and po: "post = map lowerChar post'"
    by (metis append_eq_map_conv)
  from yy assms(2) have "y' = y" using lowerChar_digits [of y'] by simp
  have "pre' = [] \<or> \<not> isWordChar (last pre')"
    using assms(3) p by (auto simp: last_map lowerChar_word)
  moreover have "post' = [] \<or> \<not> isWordChar (hd post')"
    using assms(4) po by (auto simp: hd_map lowerChar_word)
  ultimately show ?thesis
    unfolding yearToken_def using u1 u2 \<open>y' = y\<close> by blast
qed

lemma uniq_set: "set (uniq xs) = set xs"
  by (induction xs) auto

lemma uniq_not_Nil: "xs \<noteq> [] \<Longrightarrow> uniq xs \<noteq> []"
  by (cases xs) simp_all

lemma dropWhile_self: "xs = [] \<or> \<not> P (hd xs) \<Longrightarrow> dropWhile P xs = xs"
  by (cases xs) auto

lemma dropWhile_hd: "dropWhile P xs = [] \<or> \<not> P (hd (dropWhile P xs))"
  using hd_dropWhile by blast

lemma dropWhile_last: "dropWhile P xs \<noteq> [] \<Longrightarrow> last (dropWhile P xs) = last xs"
  by (induction xs) (auto split: if_splits)

lemma dropWhile_Nil_Nil: "xs = [] \<Longrightarrow> dropWhile P xs = []"
  by simp

lemma trim_idem: "trim (trim s) = trim s"
proof -
  let ?a = "dropWhile isSpace s"
  let ?b = "dropWhile isSpace (rev ?a)"
  have t: "trim s = rev ?b" by (simp add: trim_def)
  have 1: "dropWhile isSpace (rev ?b) = rev ?b"
  proof (rule dropWhile_self, cases "?b = []")
    case True
    then show "rev ?b = [] \<or> \<not> isSpace (hd (rev ?b))" by simp
  next
    case False
    then have "rev ?a \<noteq> []" using dropWhile_Nil_Nil by blast
    then have a: "?a \<noteq> []" by simp
    have "hd (rev ?b) = last ?b" using False by (simp add: hd_rev)
    also have "\<dots> = last (rev ?a)" using False by (rule dropWhile_last)
    also have "\<dots> = hd ?a" using a by (simp add: last_rev)
    finally have "hd (rev ?b) = hd ?a" .
    moreover have "\<not> isSpace (hd ?a)" using a dropWhile_hd [of isSpace s] by blast
    ultimately show "rev ?b = [] \<or> \<not> isSpace (hd (rev ?b))" by simp
  qed
  have 2: "dropWhile isSpace ?b = ?b"
    by (rule dropWhile_self) (rule dropWhile_hd)
  show ?thesis
    unfolding t unfolding trim_def by (simp add: 1 2)
qed

lemma trim_sanitizeInput: "trim (sanitizeInput raw) = sanitizeInput raw"
  unfolding sanitizeInput_def by (rule trim_idem)

section \<open>Lemmas on the handler\<close>

lemma generateAIResponse_eq:
  "generateAIResponse env q rs h =
     (case fst (callGeminiAPI env (buildPrompt (sanitizeInput q) rs h)) of
        Inr t \<Rightarrow> t | Inl e \<Rightarrow> apologyProcessing,
      snd (callGeminiAPI env (buildPrompt (sanitizeInput q) rs h)))"
  by (simp add: generateAIResponse_def split: prod.splits sum.splits)

lemma handleQuery_accepted:
  "trim (sanitizeInput (query b)) \<noteq> [] \<Longrightarrow>
   handleQuery env clk (Some b) =
     (createSuccessResponse clk
        \<lparr>answer = requestAnswer env b,
         sources = convertToDocumentSources (fst (requestSearch env b)),
         totalHits = length (fst (requestSearch env b)),
         queryTime = endTime clk - startTime clk,
         expandedQuery = expandUserQuery (sanitizeInput (query b))\<rparr>,
      snd (requestSearch env b) @ snd (callGeminiAPI env (requestPrompt env b)))"
  by (simp add: handleQuery_def requestSearch_def requestPrompt_def requestAnswer_def
      generateAIResponse_eq Let_def split: prod.splits)

lemma handleQuery_rejected:
  "trim (sanitizeInput (query b)) = [] \<Longrightarrow>
   handleQuery env clk (Some b) = (createErrorResponse clk ''Query is required'' 400, [])"
  by (simp add: handleQuery_def Let_def)


lemma searchOne_calls_nonempty: "snd (searchOne env fs uv k q) \<noteq> []"
  by (simp add: searchOne_def Let_def split: sum.splits)

lemma requestSearch_calls_nonempty: "snd (requestSearch env b) \<noteq> []"
  by (simp add: requestSearch_def Let_def multiSearch_eq multiSearchState_snd
      searchOne_calls_nonempty)

lemma eatCI_a: "p \<noteq> CHR ''a'' \<Longrightarrow> eatCI (p # ps) (replicate n CHR ''a'') = None"
  by (cases n) (simp_all add: asciiLower_def code_def)

lemma removeLit_a: "removeLit ''javascript:'' (replicate n CHR ''a'') = replicate n CHR ''a''"
proof (induction n)
  case 0
  then show ?case by simp
next
  case (Suc n)
  have "eatCI ''javascript:'' (replicate (Suc n) CHR ''a'') = None"
    by (rule eatCI_a) simp
  with Suc show ?case by simp
qed

lemma removeHandlers_a: "removeHandlers (replicate n CHR ''a'') = replicate n CHR ''a''"
proof (induction n)
  case 0
  then show ?case by simp
next
  case (Suc n)
  have "eatCI ''on'' (replicate (Suc n) CHR ''a'') = None"
    by (rule eatCI_a) simp
  then have "handlerLength (replicate (Suc n) CHR ''a'') = None"
    by (simp add: handlerLength_def)
  with Suc show ?case by simp
qed

lemma not_space_a: "\<not> isSpace CHR ''a''"
  by (simp add: isSpace_def code_def)

lemma trim_a: "trim (replicate n CHR ''a'') = replicate n CHR ''a''"
  by (simp add: trim_def dropWhile_replicate not_space_a)

lemma sanitizeInput_a: "sanitizeInput (replicate n CHR ''a'') = replicate n CHR ''a''"
  by (simp add: sanitizeInput_def removeLit_a removeHandlers_a trim_a)

lemma searchOne_vector_head:
  "hd (snd (searchOne env fs True k q)) = EmbeddingCall q"
  by (simp add: searchOne_def Let_def split: sum.splits)

lemma requestSearch_first_call:
  "useVectorSearch b = None \<Longrightarrow>
   hd (snd (requestSearch env b)) = EmbeddingCall (sanitizeInput (query b))"
  by (simp add: requestSearch_def Let_def multiSearch_eq multiSearchState_snd
      searchOne_calls_nonempty searchOne_vector_head)

lemma generateEmbedding_fallback:
  "\<not> (configured \<and> response = Some True) \<Longrightarrow>
   generateEmbedding configured response random = replicate 768 0"
  by (auto simp: generateEmbedding_def)

lemma generateEmbedding_random:
  "generateEmbedding True (Some True) (\<lambda>i. 0) \<noteq> generateEmbedding True (Some True) (\<lambda>i. 1)"
proof
  assume "generateEmbedding True (Some True) (\<lambda>i. 0) = generateEmbedding True (Some True) (\<lambda>i. 1)"
  then have "hd (generateEmbedding True (Some True) (\<lambda>i. 0))
      = hd (generateEmbedding True (Some True) (\<lambda>i. 1))"
    by simp
  then show False
    by (simp add: generateEmbedding_def upt_conv_Cons)
qed

section \<open>The sample data, evaluated\<close>

lemma splitLines_tableAndProse:
  "splitLines tableAndProse = [''Month,Revenue'', ''Jan-2021,1000'', ''Revenue in 2020 was 5'']"
  by (simp add: tableAndProse_def LF_def CR_def)

lemma freeText_tableAndProse:
  "freeTextLoop ''d'' tableAndProse =
     [\<lparr>metric = ''revenue'', year = ''20'', amount = 1000, fact_source = ''d''\<rparr>,
      \<lparr>metric = ''revenue'', year = ''20'', amount = 5, fact_source = ''d''\<rparr>]"
  by code_simp

lemma tabular_tableAndProse:
  "tabularFacts ''d'' [''Month,Revenue'', ''Jan-2021,1000'', ''Revenue in 2020 was 5''] 0 =
     [\<lparr>metric = ''revenue'', year = ''2021'', amount = 1000, fact_source = ''d''\<rparr>]"
  by code_simp

lemma header_tableAndProse: "isHeaderLine ''Month,Revenue''"
  by code_simp

lemma no_header_prose: "\<not> isHeaderLine ''Revenue in 2020 was 5''"
  by code_simp

lemma splitLines_prose: "splitLines ''Revenue in 2020 was 5'' = [''Revenue in 2020 was 5'']"
  by code_simp

lemma extract_revenueTable:
  "extractRevenueByYearFromCsvContent revenueTable = [(''2021'', 3000)]"
  by code_simp

lemma revenue_in_revenueTable: "containsCI ''revenue'' revenueTable"
  by code_simp

lemma financials_two_tables:
  "financialsLoop [sampleDoc ''a'' Csv revenueTable, sampleDoc ''b'' Csv revenueTable] []
     = [(''2021'', 6000)]"
proof -
  have d: "dtype (sampleDoc i Csv revenueTable) = Csv" for i
    by (simp add: sampleDoc_def)
  show ?thesis
    by (simp add: d content_sampleDoc revenue_in_revenueTable extract_revenueTable
        recordAdd_def recordGet0_def)
qed

lemma no_metric_in_strategy: "matchedMetrics ''Tell me about our strategy'' = []"
  by code_simp

lemma years_of_compare:
  "years (planInformationNeeds ''Compare revenue in 2021 and 2020'') = [''2021'', ''2020'']"
  by code_simp

lemma trim_compare:
  "trim ''Compare revenue in 2021 and 2020'' = ''Compare revenue in 2021 and 2020''"
  by code_simp


section \<open>Claims on multiSearch\<close>

text \<open>
  C4. For any \<open>maxResults = N\<close> and all collaborators, queries and filters, the list
  \<open>multiSearch\<close> returns has at most \<open>N\<close> hits. \<open>N\<close> is a count of results (1 to 50 in
  the request schema), so it is not negative: \<open>merged.slice(0, N)\<close> with a negative \<open>N\<close>
  counts from the end of the list instead.
\<close>

theorem multiSearch_length_le_maxResults:
  "0 \<le> n \<Longrightarrow> int (length (fst (multiSearch env userQuery queries fs useVector n))) \<le> n"
  by (simp add: multiSearch_eq slice0_length)

text \<open>C4 at \<open>maxResults = 1\<close>, where two queries find three hits.\<close>

theorem multiSearch_length_le_maxResults_witness:
  "(0::int) \<le> 1 \<and>
   int (length (fst (multiSearch twoListsEnv ''q1'' [''q1'', ''q2''] None True 1))) \<le> 1"
  using multiSearch_length_le_maxResults [of 1 twoListsEnv "''q1''" "[''q1'', ''q2'']" None True]
  by simp

text \<open>
  C3 as stated fails on the returned list. With \<open>maxResults = 1\<close> the first query finds
  \<open>doc0\<close> and \<open>doc1\<close>, the second finds \<open>doc1\<close>: the identity \<open>doc1\<close> is in both result
  lists and the returned list holds \<open>doc0\<close> only.
\<close>

theorem multiSearch_drops_identity_counterexample:
  "fanOut twoListsEnv None True (topKPerQuery 1) (take 6 [''q1'', ''q2'']) =
     [sampleDoc ''doc0'' Txt [], sampleDoc ''doc1'' Txt [], sampleDoc ''doc1'' Txt []]
   \<and> hitKey (sampleDoc ''doc1'' Txt []) = ''doc1''
   \<and> map hitKey (fst (multiSearch twoListsEnv ''q1'' [''q1'', ''q2''] None True 1)) = [''doc0'']"
  by (simp add: multiSearch_def multiSearchState_def searchOne_def twoListsEnv_def
      topKPerQuery_def slice0_def hitKey_sampleDoc fanOut_def queryHits_def)

text \<open>
  C3, amended. When the loop ends, every dedupe identity of the flat hit list is in
  \<open>merged\<close> exactly once (the identities of \<open>merged\<close> are distinct and are those of the
  flat list), each by the hit of its first occurrence, and \<open>merged\<close> keeps the order of
  the flat list. The returned list is the first \<open>maxResults\<close> entries of \<open>merged\<close>: an
  identity whose first occurrence ranks beyond \<open>maxResults\<close> is not returned.
\<close>

theorem multiSearch_first_occurrences:
  "0 \<le> n \<Longrightarrow>
   (let flat = fanOut env fs useVector (topKPerQuery n) (take 6 queries);
        merged = snd (fst (multiSearchState env queries fs useVector n));
        out = fst (multiSearch env userQuery queries fs useVector n)
    in distinct (map hitKey merged)
       \<and> hitKey ` set merged = hitKey ` set flat
       \<and> subseq merged flat
       \<and> (\<forall>h \<in> set merged. find (\<lambda>x. hitKey x = hitKey h) flat = Some h)
       \<and> out = take (nat n) merged)"
  by (simp add: Let_def multiSearch_eq multiSearchState_fst firstNew_distinct firstNew_keys
      firstNew_subseq firstNew_find slice0_def)

text \<open>
  The amended C3 at \<open>maxResults = 2\<close>: \<open>doc1\<close>, found by both queries, is in \<open>merged\<close>
  once, after \<open>doc0\<close>, and both are returned.
\<close>

theorem multiSearch_first_occurrences_witness:
  "(0::int) \<le> 2
   \<and> snd (fst (multiSearchState twoListsEnv [''q1'', ''q2''] None True 2))
       = [sampleDoc ''doc0'' Txt [], sampleDoc ''doc1'' Txt []]
   \<and> distinct (map hitKey (snd (fst (multiSearchState twoListsEnv [''q1'', ''q2''] None True 2))))
   \<and> fst (multiSearch twoListsEnv ''q1'' [''q1'', ''q2''] None True 2)
       = take (nat 2) (snd (fst (multiSearchState twoListsEnv [''q1'', ''q2''] None True 2)))"
proof -
  have m: "snd (fst (multiSearchState twoListsEnv [''q1'', ''q2''] None True 2))
       = [sampleDoc ''doc0'' Txt [], sampleDoc ''doc1'' Txt []]"
    by (simp add: multiSearchState_def searchOne_def twoListsEnv_def topKPerQuery_def
        hitKey_sampleDoc)
  from multiSearch_first_occurrences [of 2 twoListsEnv None True "[''q1'', ''q2'']" "''q1''"] m
  show ?thesis by (simp add: Let_def)
qed

text \<open>
  C1 as stated fails. Hybrid search throws for the query, lexical search would find a
  document, and \<open>multiSearch\<close> returns no hit after two calls: the embedding and the
  hybrid search. Lexical search is not called.
\<close>

theorem hybrid_throw_skips_lexical_counterexample:
  "c_hybridSearchDocuments throwingHybridEnv ''q'' (c_generateEmbedding throwingHybridEnv ''q'')
       None (topKPerQuery 10) = Inl (Error ''index unavailable'')
   \<and> c_textSearchDocuments throwingHybridEnv ''q'' None (topKPerQuery 10)
       = Inr [sampleDoc ''doc1'' Txt []]
   \<and> multiSearch throwingHybridEnv ''q'' [''q''] None True 10
       = ([], [EmbeddingCall ''q'', HybridSearchCall ''q'' [] None 5])"
  by (simp add: multiSearch_def multiSearchState_def searchOne_def throwingHybridEnv_def
      topKPerQuery_def slice0_def)

text \<open>
  C1, amended. For every sub-query that \<open>multiSearch\<close> executes with vector search on:
  if the hybrid search throws, the sub-query is skipped (it contributes no hits and
  lexical search is not called for it); if the hybrid search returns no hits, lexical
  search is called for that same sub-query, and the identities of the hits it returns are
  in \<open>merged\<close>.
\<close>

theorem hybrid_throw_skips_query:
  "q \<in> set (take 6 queries) \<Longrightarrow>
   (let k = topKPerQuery n;
        vec = c_generateEmbedding env q;
        st = multiSearchState env queries fs True n
    in (isl (c_hybridSearchDocuments env q vec fs k) \<longrightarrow>
          searchOne env fs True k q = (None, [EmbeddingCall q, HybridSearchCall q vec fs k])
          \<and> TextSearchCall q fs k \<notin> set (snd st))
       \<and> (c_hybridSearchDocuments env q vec fs k = Inr [] \<longrightarrow>
            TextSearchCall q fs k \<in> set (snd st)
            \<and> (\<forall>rs. c_textSearchDocuments env q fs k = Inr rs \<longrightarrow>
                  hitKey ` set rs \<subseteq> hitKey ` set (snd (fst st)))))"
proof -
  assume q: "q \<in> set (take 6 queries)"
  let ?k = "topKPerQuery n"
  let ?vec = "c_generateEmbedding env q"
  let ?st = "multiSearchState env queries fs True n"
  have throw: "searchOne env fs True ?k q = (None, [EmbeddingCall q, HybridSearchCall q ?vec fs ?k])
          \<and> TextSearchCall q fs ?k \<notin> set (snd ?st)"
    if t: "isl (c_hybridSearchDocuments env q ?vec fs ?k)"
  proof
    from t show "searchOne env fs True ?k q = (None, [EmbeddingCall q, HybridSearchCall q ?vec fs ?k])"
      by (auto simp: searchOne_def Let_def split: sum.splits)
    show "TextSearchCall q fs ?k \<notin> set (snd ?st)"
    proof
      assume "TextSearchCall q fs ?k \<in> set (snd ?st)"
      then obtain q' where c: "TextSearchCall q fs ?k \<in> set (snd (searchOne env fs True ?k q'))"
        by (auto simp: multiSearchState_snd)
      then have "q' = q"
        using textCall_searchOne by blast
      with c have "c_hybridSearchDocuments env q ?vec fs ?k = Inr []"
        by (auto simp: searchOne_def Let_def split: sum.splits if_splits)
      with t show False by simp
    qed
  qed
  have empty: "TextSearchCall q fs ?k \<in> set (snd ?st)
            \<and> (\<forall>rs. c_textSearchDocuments env q fs ?k = Inr rs \<longrightarrow>
                  hitKey ` set rs \<subseteq> hitKey ` set (snd (fst ?st)))"
    if e: "c_hybridSearchDocuments env q ?vec fs ?k = Inr []"
  proof
    from e have "TextSearchCall q fs ?k \<in> set (snd (searchOne env fs True ?k q))"
      by (auto simp: searchOne_def Let_def split: sum.splits)
    with q show "TextSearchCall q fs ?k \<in> set (snd ?st)"
      by (auto simp: multiSearchState_snd)
    show "\<forall>rs. c_textSearchDocuments env q fs ?k = Inr rs \<longrightarrow>
                  hitKey ` set rs \<subseteq> hitKey ` set (snd (fst ?st))"
    proof (intro allI impI)
      fix rs assume r: "c_textSearchDocuments env q fs ?k = Inr rs"
      with e have "queryHits env fs True ?k q = rs"
        by (simp add: queryHits_def searchOne_def Let_def)
      with q have "set rs \<subseteq> set (fanOut env fs True ?k (take 6 queries))"
        by (auto simp: fanOut_def)
      then show "hitKey ` set rs \<subseteq> hitKey ` set (snd (fst ?st))"
        by (auto simp: multiSearchState_fst firstNew_keys)
    qed
  qed
  from throw empty show ?thesis by (simp add: Let_def)
qed

text \<open>
  The amended C1 on both branches: a hybrid search that throws, and one that finds
  nothing while lexical search finds \<open>doc1\<close>.
\<close>

theorem hybrid_throw_skips_query_witness:
  "''q'' \<in> set (take 6 [''q''])
   \<and> isl (c_hybridSearchDocuments throwingHybridEnv ''q'' (c_generateEmbedding throwingHybridEnv ''q'')
            None (topKPerQuery 10))
   \<and> TextSearchCall ''q'' None (topKPerQuery 10)
        \<notin> set (snd (multiSearchState throwingHybridEnv [''q''] None True 10))
   \<and> c_hybridSearchDocuments emptyHybridEnv ''q'' (c_generateEmbedding emptyHybridEnv ''q'')
        None (topKPerQuery 10) = Inr []
   \<and> TextSearchCall ''q'' None (topKPerQuery 10)
        \<in> set (snd (multiSearchState emptyHybridEnv [''q''] None True 10))
   \<and> hitKey ` set [sampleDoc ''doc1'' Txt []]
        \<subseteq> hitKey ` set (snd (fst (multiSearchState emptyHybridEnv [''q''] None True 10)))"
proof -
  have q: "''q'' \<in> set (take 6 [''q''])" by simp
  have t: "isl (c_hybridSearchDocuments throwingHybridEnv ''q''
              (c_generateEmbedding throwingHybridEnv ''q'') None (topKPerQuery 10))"
    by (simp add: throwingHybridEnv_def)
  have e: "c_hybridSearchDocuments emptyHybridEnv ''q'' (c_generateEmbedding emptyHybridEnv ''q'')
        None (topKPerQuery 10) = Inr []"
    by (simp add: emptyHybridEnv_def)
  have r: "c_textSearchDocuments emptyHybridEnv ''q'' None (topKPerQuery 10)
        = Inr [sampleDoc ''doc1'' Txt []]"
    by (simp add: emptyHybridEnv_def)
  from hybrid_throw_skips_query [OF q, of 10 throwingHybridEnv None] t
  have a: "TextSearchCall ''q'' None (topKPerQuery 10)
        \<notin> set (snd (multiSearchState throwingHybridEnv [''q''] None True 10))"
    by (simp add: Let_def)
  from hybrid_throw_skips_query [OF q, of 10 emptyHybridEnv None] e r
  have b: "TextSearchCall ''q'' None (topKPerQuery 10)
        \<in> set (snd (multiSearchState emptyHybridEnv [''q''] None True 10))
      \<and> hitKey ` set [sampleDoc ''doc1'' Txt []]
        \<subseteq> hitKey ` set (snd (fst (multiSearchState emptyHybridEnv [''q''] None True 10)))"
    by (simp add: Let_def)
  from q t e a b show ?thesis by blast
qed

section \<open>Claim on the hybrid search request\<close>

text \<open>
  C9 as stated fails on the boosts: the file name has the highest boost, not the lowest,
  and the content and the summary have the same boost.
\<close>

theorem hybridSearchBody_boost_order_counterexample:
  "boostOf (hybridSearchBody ''q'' [] None 10) ''title'' = Some 3
   \<and> boostOf (hybridSearchBody ''q'' [] None 10) ''content'' = Some 2
   \<and> boostOf (hybridSearchBody ''q'' [] None 10) ''metadata.summary'' = Some 2
   \<and> boostOf (hybridSearchBody ''q'' [] None 10) ''metadata.fileName'' = Some 4
   \<and> \<not> (the (boostOf (hybridSearchBody ''q'' [] None 10) ''title'')
           > the (boostOf (hybridSearchBody ''q'' [] None 10) ''metadata.fileName''))
   \<and> \<not> (the (boostOf (hybridSearchBody ''q'' [] None 10) ''content'')
           > the (boostOf (hybridSearchBody ''q'' [] None 10) ''metadata.summary''))"
  by (simp add: boostOf_def hybridSearchBody_def fieldBoost_def natOfDigits_def digitVal_def
      code_def)

text \<open>
  C9, amended. The hybrid search request has two \<open>should\<close> clauses with
  \<open>minimum_should_match = 1\<close>: a k-nearest-neighbour clause on the embedding field
  (\<open>k = 2 * size\<close>, 100 candidates) and a fuzzy (\<open>AUTO\<close>) \<open>best_fields\<close> multi-match
  whose boosts rank the file name highest (4), then the title (3), then the content and
  the summary (2 each), then the combined text (1).
\<close>

theorem hybridSearchBody_clauses:
  "hb_should (hybridSearchBody q vec fs sz) =
     [Knn ''embedding'' vec (sz * 2) 100,
      MultiMatch q
        [''title^3'', ''content^2'', ''text'', ''metadata.summary^2'', ''metadata.fileName^4'']
        ''best_fields'' ''AUTO'']
   \<and> hb_minimum_should_match (hybridSearchBody q vec fs sz) = 1
   \<and> boostOf (hybridSearchBody q vec fs sz) ''metadata.fileName'' = Some 4
   \<and> boostOf (hybridSearchBody q vec fs sz) ''title'' = Some 3
   \<and> boostOf (hybridSearchBody q vec fs sz) ''content'' = Some 2
   \<and> boostOf (hybridSearchBody q vec fs sz) ''metadata.summary'' = Some 2
   \<and> boostOf (hybridSearchBody q vec fs sz) ''text'' = Some 1"
  by (simp add: boostOf_def hybridSearchBody_def fieldBoost_def natOfDigits_def digitVal_def
      code_def)

section \<open>Claim on extractMetricYearFacts\<close>

text \<open>
  C10. A document whose content has a header line (a line with a comma and one of the six
  metric keywords) gets its facts from the tabular heuristic alone, run from the first
  such line; the free-text heuristic runs on the documents without a header line, and
  only on them. The facts of a list of documents are those of each document, in order.
\<close>

theorem docFacts_one_heuristic:
  "((\<exists>l \<in> set (splitLines (content doc)). isHeaderLine l) \<longrightarrow>
      (\<exists>i < length (splitLines (content doc)).
          isHeaderLine (splitLines (content doc) ! i)
          \<and> (\<forall>j < i. \<not> isHeaderLine (splitLines (content doc) ! j))
          \<and> docFacts doc = (Tabular, tabularFacts (docSource doc) (splitLines (content doc)) i)))
   \<and> (\<not> (\<exists>l \<in> set (splitLines (content doc)). isHeaderLine l) \<longrightarrow>
        docFacts doc = (FreeText, freeTextLoop (docSource doc) (content doc)))
   \<and> extractMetricYearFacts docs = concat (map (\<lambda>d. snd (docFacts d)) docs)"
proof (intro conjI impI)
  let ?lines = "splitLines (content doc)"
  assume "\<exists>l \<in> set ?lines. isHeaderLine l"
  then have "findIndex isHeaderLine ?lines \<noteq> None"
    by (simp add: findIndex_None)
  then obtain i where i: "findIndex isHeaderLine ?lines = Some i" by auto
  then have d: "docFacts doc = (Tabular, tabularFacts (docSource doc) ?lines i)"
    by (simp add: docFacts_def Let_def)
  from findIndex_Some [OF i] d
  show "\<exists>i < length ?lines. isHeaderLine (?lines ! i) \<and> (\<forall>j < i. \<not> isHeaderLine (?lines ! j))
          \<and> docFacts doc = (Tabular, tabularFacts (docSource doc) ?lines i)"
    by blast
next
  assume "\<not> (\<exists>l \<in> set (splitLines (content doc)). isHeaderLine l)"
  then have "findIndex isHeaderLine (splitLines (content doc)) = None"
    by (simp add: findIndex_None)
  then show "docFacts doc = (FreeText, freeTextLoop (docSource doc) (content doc))"
    by (simp add: docFacts_def Let_def)
next
  show "extractMetricYearFacts docs = concat (map (\<lambda>d. snd (docFacts d)) docs)"
    by (simp add: extractMetricYearFacts_def factsLoop_concat)
qed

text \<open>
  C10 on a table followed by a sentence: the document yields the one fact of the table,
  where the free-text heuristic on the same content would yield two other facts; and the
  sentence alone, which has no header line, goes to the free-text heuristic.
\<close>

theorem docFacts_one_heuristic_witness:
  "docFacts (sampleDoc ''d'' Csv tableAndProse) =
     (Tabular, [\<lparr>metric = ''revenue'', year = ''2021'', amount = 1000, fact_source = ''d''\<rparr>])
   \<and> freeTextLoop ''d'' tableAndProse =
       [\<lparr>metric = ''revenue'', year = ''20'', amount = 1000, fact_source = ''d''\<rparr>,
        \<lparr>metric = ''revenue'', year = ''20'', amount = 5, fact_source = ''d''\<rparr>]
   \<and> docFacts (sampleDoc ''d'' Txt ''Revenue in 2020 was 5'') =
       (FreeText, freeTextLoop ''d'' ''Revenue in 2020 was 5'')"
proof -
  let ?doc = "sampleDoc ''d'' Csv tableAndProse"
  have c: "content ?doc = tableAndProse" by (rule content_sampleDoc)
  have s: "docSource ?doc = ''d''" by (rule docSource_sampleDoc) simp
  have l: "splitLines (content ?doc) = [''Month,Revenue'', ''Jan-2021,1000'', ''Revenue in 2020 was 5'']"
    unfolding c by (rule splitLines_tableAndProse)
  have h0: "isHeaderLine (splitLines (content ?doc) ! 0)"
    unfolding l using header_tableAndProse by simp
  then have "\<exists>l \<in> set (splitLines (content ?doc)). isHeaderLine l"
    unfolding l by simp
  with docFacts_one_heuristic [of ?doc "[]"]
  obtain i where i: "\<forall>j < i. \<not> isHeaderLine (splitLines (content ?doc) ! j)"
      "docFacts ?doc = (Tabular, tabularFacts (docSource ?doc) (splitLines (content ?doc)) i)"
    by blast
  have "i = 0"
  proof (rule ccontr)
    assume "i \<noteq> 0"
    with i(1) have "\<not> isHeaderLine (splitLines (content ?doc) ! 0)" by simp
    with h0 show False by simp
  qed
  with i(2) have a: "docFacts ?doc =
      (Tabular, [\<lparr>metric = ''revenue'', year = ''2021'', amount = 1000, fact_source = ''d''\<rparr>])"
    unfolding l s by (simp only: tabular_tableAndProse)
  let ?prose = "sampleDoc ''d'' Txt ''Revenue in 2020 was 5''"
  have c': "content ?prose = ''Revenue in 2020 was 5''" by (rule content_sampleDoc)
  have s': "docSource ?prose = ''d''" by (rule docSource_sampleDoc) simp
  have "\<not> (\<exists>l \<in> set (splitLines (content ?prose)). isHeaderLine l)"
    unfolding c' splitLines_prose using no_header_prose by simp
  with docFacts_one_heuristic [of ?prose "[]"]
  have "docFacts ?prose = (FreeText, freeTextLoop (docSource ?prose) (content ?prose))"
    by blast
  then have b: "docFacts ?prose = (FreeText, freeTextLoop ''d'' ''Revenue in 2020 was 5'')"
    unfolding c' s' .
  from a b freeText_tableAndProse show ?thesis by (simp only: simp_thms)
qed

section \<open>Claim on the revenue extractor\<close>

text \<open>
  C5. On the content with the header \<open>Month,Revenue\<close> and the rows \<open>Jan-2021,1000\<close> and
  \<open>Feb-2021,2000\<close> the extractor yields \<open>{"2021": 3000}\<close>. In general the value it holds
  for a year is the sum of the revenues of all the rows of that year, and the value the
  financial block of the prompt holds for a year is the sum, over the documents of type
  csv whose content mentions revenue, of the values extracted from each: two documents
  with that content give \<open>{"2021": 6000}\<close>.
\<close>

theorem revenue_by_year_summed:
  "extractRevenueByYearFromCsvContent revenueTable = [(''2021'', 3000)]
   \<and> recordGet0 (extractRevenueByYearFromCsvContent csv) y = totalFor y (revenueEntries csv)
   \<and> p_financials (buildPrompt q docs history) = financialsLoop docs []
   \<and> recordGet0 (financialsLoop docs []) y =
        sum_list (map (\<lambda>d. recordGet0 (extractRevenueByYearFromCsvContent (content d)) y)
          (filter csvWithRevenue docs))
   \<and> financialsLoop [sampleDoc ''a'' Csv revenueTable, sampleDoc ''b'' Csv revenueTable] []
        = [(''2021'', 6000)]"
proof (intro conjI)
  show "extractRevenueByYearFromCsvContent revenueTable = [(''2021'', 3000)]"
    by (rule extract_revenueTable)
  show "recordGet0 (extractRevenueByYearFromCsvContent csv) y = totalFor y (revenueEntries csv)"
    by (rule extract_get)
  show "p_financials (buildPrompt q docs history) = financialsLoop docs []"
    by (simp add: buildPrompt_def)
  show "recordGet0 (financialsLoop docs []) y =
        sum_list (map (\<lambda>d. recordGet0 (extractRevenueByYearFromCsvContent (content d)) y)
          (filter csvWithRevenue docs))"
    by (simp add: financialsLoop_get recordGet0_Nil)
  show "financialsLoop [sampleDoc ''a'' Csv revenueTable, sampleDoc ''b'' Csv revenueTable] []
        = [(''2021'', 6000)]"
    by (rule financials_two_tables)
qed

section \<open>Claim on the planner\<close>

text \<open>
  C7. For every question the plan has a non-empty list of metrics, which is
  \<open>["revenue"]\<close> when none of the six keyword tests matches; every year of the plan is
  a token of four digits of the question, between 1900 and 2099; and the search queries
  are not empty and start with the question. The planner trims the question it puts
  first: that is the question itself for a trimmed one, and the handler passes the
  output of \<open>sanitizeInput\<close>, which is trimmed.
\<close>

theorem planInformationNeeds_invariant:
  "metrics (planInformationNeeds q) \<noteq> []
   \<and> (matchedMetrics q = [] \<longrightarrow> metrics (planInformationNeeds q) = [''revenue''])
   \<and> (\<forall>y \<in> set (years (planInformationNeeds q)).
         year4 y \<and> 1900 \<le> natOfDigits y \<and> natOfDigits y \<le> 2099 \<and> yearToken y q)
   \<and> searchQueries (planInformationNeeds q) \<noteq> []
   \<and> hd (searchQueries (planInformationNeeds q)) = trim q
   \<and> (trim q = q \<longrightarrow> hd (searchQueries (planInformationNeeds q)) = q)
   \<and> hd (searchQueries (planInformationNeeds (sanitizeInput raw))) = sanitizeInput raw"
proof (intro conjI)
  show "metrics (planInformationNeeds q) \<noteq> []"
    by (simp add: planInformationNeeds_def Let_def uniq_not_Nil)
  show "matchedMetrics q = [] \<longrightarrow> metrics (planInformationNeeds q) = [''revenue'']"
    by (simp add: planInformationNeeds_def Let_def)
  show "\<forall>y \<in> set (years (planInformationNeeds q)).
         year4 y \<and> 1900 \<le> natOfDigits y \<and> natOfDigits y \<le> 2099 \<and> yearToken y q"
  proof
    fix y assume "y \<in> set (years (planInformationNeeds q))"
    then have "y \<in> set (scanYears False (toLowerCase q))"
      by (simp add: planInformationNeeds_def Let_def uniq_set)
    from scanYears_tokens [OF this] obtain pre post where
      p: "toLowerCase q = pre @ y @ post" "if pre = [] then \<not> False else \<not> isWordChar (last pre)"
         "post = [] \<or> \<not> isWordChar (hd post)" "yearAt y" "length y = 4"
      by blast
    from yearAt_range [OF p(4,5)] have r: "year4 y \<and> 1900 \<le> natOfDigits y \<and> natOfDigits y \<le> 2099" .
    then have "list_all isDigit y" by (simp add: year4_def)
    moreover from p(2) have "pre = [] \<or> \<not> isWordChar (last pre)" by (auto split: if_splits)
    ultimately have "yearToken y q" using p(1,3) by (intro token_toLowerCase)
    with r show "year4 y \<and> 1900 \<le> natOfDigits y \<and> natOfDigits y \<le> 2099 \<and> yearToken y q"
      by simp
  qed
  show "searchQueries (planInformationNeeds q) \<noteq> []"
    by (simp add: planInformationNeeds_def Let_def)
  show h: "hd (searchQueries (planInformationNeeds q)) = trim q" for q
    by (simp add: planInformationNeeds_def Let_def)
  then show "trim q = q \<longrightarrow> hd (searchQueries (planInformationNeeds q)) = q"
    by simp
  show "hd (searchQueries (planInformationNeeds (sanitizeInput raw))) = sanitizeInput raw"
    by (simp add: h trim_sanitizeInput)
qed

text \<open>
  C7 on two questions: one without a metric keyword, and one with two years.
\<close>

theorem planInformationNeeds_invariant_witness:
  "matchedMetrics ''Tell me about our strategy'' = []
   \<and> metrics (planInformationNeeds ''Tell me about our strategy'') = [''revenue'']
   \<and> years (planInformationNeeds ''Compare revenue in 2021 and 2020'') = [''2021'', ''2020'']
   \<and> yearToken ''2021'' ''Compare revenue in 2021 and 2020''
   \<and> natOfDigits ''2021'' \<le> 2099
   \<and> trim ''Compare revenue in 2021 and 2020'' = ''Compare revenue in 2021 and 2020''
   \<and> hd (searchQueries (planInformationNeeds ''Compare revenue in 2021 and 2020''))
        = ''Compare revenue in 2021 and 2020''"
proof -
  let ?q = "''Compare revenue in 2021 and 2020''"
  note t = planInformationNeeds_invariant [of "''Tell me about our strategy''" "[]"]
  note c = planInformationNeeds_invariant [of ?q "[]"]
  have m: "matchedMetrics ''Tell me about our strategy'' = []"
    by (rule no_metric_in_strategy)
  with t have 1: "metrics (planInformationNeeds ''Tell me about our strategy'') = [''revenue'']"
    by blast
  have y: "years (planInformationNeeds ?q) = [''2021'', ''2020'']"
    by (rule years_of_compare)
  then have "''2021'' \<in> set (years (planInformationNeeds ?q))" by simp
  with c have 2: "yearToken ''2021'' ?q \<and> natOfDigits ''2021'' \<le> 2099"
    by blast
  have tr: "trim ?q = ?q" by (rule trim_compare)
  with c have 3: "hd (searchQueries (planInformationNeeds ?q)) = ?q" by blast
  from m 1 y 2 tr 3 show ?thesis by blast
qed

section \<open>Claims on the handler\<close>

text \<open>
  C2 on the code. The empty query is rejected with status 400 and no call is made. A
  query of 1001 characters is not rejected: the handler answers 200 with
  \<open>success: true\<close> after downstream calls, the first of which is the embedding of the
  query. The schema of the request, which bounds the query at 1000 characters, is
  declared and never applied.
\<close>

theorem handleQuery_accepts_long_query:
  "length longQuery = 1001
   \<and> status (fst (handleQuery env clk (Some (plainRequest longQuery)))) = 200
   \<and> success (fst (handleQuery env clk (Some (plainRequest longQuery))))
   \<and> snd (handleQuery env clk (Some (plainRequest longQuery))) \<noteq> []
   \<and> hd (snd (handleQuery env clk (Some (plainRequest longQuery)))) = EmbeddingCall longQuery
   \<and> handleQuery env clk (Some (plainRequest [])) =
        (createErrorResponse clk ''Query is required'' 400, [])"
proof -
  have s: "sanitizeInput (query (plainRequest longQuery)) = longQuery"
    by (simp add: plainRequest_def longQuery_def sanitizeInput_a)
  have "trim longQuery \<noteq> []"
    by (simp add: longQuery_def trim_a)
  with s have "trim (sanitizeInput (query (plainRequest longQuery))) \<noteq> []" by simp
  moreover have "hd (snd (requestSearch env (plainRequest longQuery))) = EmbeddingCall longQuery"
    using requestSearch_first_call [of "plainRequest longQuery" env] s
    by (simp add: plainRequest_def)
  ultimately
  have a: "status (fst (handleQuery env clk (Some (plainRequest longQuery)))) = 200
   \<and> success (fst (handleQuery env clk (Some (plainRequest longQuery))))
   \<and> snd (handleQuery env clk (Some (plainRequest longQuery))) \<noteq> []
   \<and> hd (snd (handleQuery env clk (Some (plainRequest longQuery)))) = EmbeddingCall longQuery"
    using handleQuery_accepted [of "plainRequest longQuery" env clk]
      requestSearch_calls_nonempty [of env "plainRequest longQuery"]
    by (simp add: createSuccessResponse_def)
  have "trim (sanitizeInput (query (plainRequest []))) = []"
    by (simp add: plainRequest_def sanitizeInput_def trim_def)
  from handleQuery_rejected [OF this] a show ?thesis
    by (simp add: longQuery_def)
qed




end
